theory Spec2Isabelle
  imports Complex_Main "HOL-Library.AList" "HOL-Library.Log_Nat"
begin

section \<open>Numbers and series entries\<close>

text \<open>
  The program computes with JavaScript numbers, which are binary64 floating-point
  numbers. A finite number is modelled as a real (there is no signed zero). Where the
  source itself tests for \<^verbatim>\<open>NaN\<close> or for non-finite values (\<^verbatim>\<open>irr\<close>, the curve builder,
  the ranking), a number is a \<open>jsnum\<close>, which adds the three special values.

  The sums, differences and quotients of the engine, of the ranking and of \<^verbatim>\<open>npv\<close> are
  modelled without rounding. The rounding of binary64 (\<open>fl64\<close> below) is modelled where
  a result of the program rests on it: in the product whose sign \<^verbatim>\<open>irr\<close> tests, which
  underflows to zero, and in every operation of \<^verbatim>\<open>quadraticFit\<close>, whose determinants
  cancel.
\<close>

datatype jsnum = Fin real | PInf | NInf | NaN

text \<open>
  An entry of a yearly series in the wizard is either blank (the empty string, \<^verbatim>\<open>null\<close>
  or a missing array slot: \<open>None\<close>) or a finite number (\<open>Some v\<close>, also for the text of
  a number as the input fields store it). An entry that is neither (other text, \<^verbatim>\<open>NaN\<close>,
  an infinity) is outside this model; \<^verbatim>\<open>interpolateSeries\<close> passes over such an entry
  as it does over a blank one.
\<close>

type_synonym cell = "real option"

text \<open>\<^verbatim>\<open>arr[i]\<close>: a read past the end of a JavaScript array gives \<^verbatim>\<open>undefined\<close>.\<close>

definition cell_at :: "cell list \<Rightarrow> nat \<Rightarrow> cell" where
  "cell_at xs i = (if i < length xs then xs ! i else None)"

text \<open>\<^verbatim>\<open>Number(c || 0)\<close> on a series entry.\<close>

definition num0 :: "cell \<Rightarrow> real" where
  "num0 c = (case c of None \<Rightarrow> 0 | Some v \<Rightarrow> v)"

section \<open>Array helpers\<close>

text \<open>\<^verbatim>\<open>Array.prototype.findIndex\<close> and \<^verbatim>\<open>indexOf\<close>: the first index, or \<open>-1\<close>.\<close>

fun findIndex_from :: "('a \<Rightarrow> bool) \<Rightarrow> 'a list \<Rightarrow> nat \<Rightarrow> int" where
  "findIndex_from P [] i = -1"
| "findIndex_from P (x # xs) i = (if P x then int i else findIndex_from P xs (Suc i))"

definition findIndex :: "('a \<Rightarrow> bool) \<Rightarrow> 'a list \<Rightarrow> int" where
  "findIndex P xs = findIndex_from P xs 0"

definition indexOf :: "'a list \<Rightarrow> 'a \<Rightarrow> int" where
  "indexOf xs v = findIndex (\<lambda>x. x = v) xs"

section \<open>Per-year results and the representative year\<close>

text \<open>
  The \<^verbatim>\<open>pieces\<close> object of a per-year entry. Its keys \<^verbatim>\<open>opex_cr\<close>, \<^verbatim>\<open>other_cr\<close>,
  \<^verbatim>\<open>savings_cr\<close> and \<^verbatim>\<open>capex_upfront_cr\<close> carry the prefix \<open>pc_\<close> here, since the
  cost stack has keys of the same names.
\<close>

record pieces =
  fuel_t :: real
  raw_t :: real
  trans_t :: real
  waste_t :: real
  elec_t :: real
  other_t :: real
  driver_cr :: real
  pc_opex_cr :: real
  pc_other_cr :: real
  pc_savings_cr :: real
  financedAnnual_cr :: real
  pc_capex_upfront_cr :: real

record per_year =
  year :: int
  direct_t :: real
  net_cost_cr :: real
  implied_cost_per_t_wo :: real
  implied_cost_per_t_w :: real
  cashflow_inr_wo_cp :: real
  cashflow_inr_w_cp :: real
  pieces :: pieces

text \<open>
  \<^verbatim>\<open>let repIdx = perYear.findIndex(y => y.direct_t > 0);
  if (repIdx < 0) repIdx = YEARS.indexOf(2035) >= 0 ? YEARS.indexOf(2035) : Math.floor(YEARS.length / 2);\<close>
  The source evaluates this with its fixed year list; the list is the parameter \<open>yrs\<close>
  here, and \<open>py\<close> is \<^verbatim>\<open>perYear\<close>.
\<close>

definition repIdx_of :: "int list \<Rightarrow> per_year list \<Rightarrow> int" where
  "repIdx_of yrs py =
     (let r = findIndex (\<lambda>y. direct_t y > 0) py
      in if r < 0
         then (if indexOf yrs 2035 \<ge> 0 then indexOf yrs 2035
               else int (length yrs div 2))
         else r)"

section \<open>Arithmetic on JavaScript numbers\<close>

fun js_neg :: "jsnum \<Rightarrow> jsnum" where
  "js_neg (Fin a) = Fin (- a)"
| "js_neg PInf = NInf"
| "js_neg NInf = PInf"
| "js_neg NaN = NaN"

fun js_add :: "jsnum \<Rightarrow> jsnum \<Rightarrow> jsnum" where
  "js_add (Fin a) (Fin b) = Fin (a + b)"
| "js_add NaN y = NaN"
| "js_add x NaN = NaN"
| "js_add PInf NInf = NaN"
| "js_add NInf PInf = NaN"
| "js_add PInf y = PInf"
| "js_add x PInf = PInf"
| "js_add NInf y = NInf"
| "js_add x NInf = NInf"

definition js_sub :: "jsnum \<Rightarrow> jsnum \<Rightarrow> jsnum" where
  "js_sub x y = js_add x (js_neg y)"

subsection \<open>Rounding to binary64\<close>

text \<open>
  \<open>expo x\<close> is the binary exponent of a positive real: the integer \<open>e\<close> with
  \<open>2\<^sup>e \<le> x < 2\<^sup>e\<^sup>+\<^sup>1\<close>. \<open>round_even\<close> rounds to the nearest integer, a tie to the
  even one.
\<close>

definition expo :: "real \<Rightarrow> int" where
  "expo x = (if 1 \<le> x then bitlen \<lfloor>x\<rfloor> - 1 else - bitlen (\<lceil>1 / x\<rceil> - 1))"

definition round_even :: "real \<Rightarrow> int" where
  "round_even m =
     (let f = \<lfloor>m\<rfloor> in
      if m - of_int f < 1 / 2 then f
      else if 1 / 2 < m - of_int f then f + 1
      else if even f then f else f + 1)"

text \<open>
  The binary64 value of a real result, rounded to nearest, ties to even: a multiple of
  \<open>2\<^sup>q\<close> with a significand of at most 53 bits, where \<open>q\<close> is at least \<open>-1074\<close> (the
  subnormal numbers). A magnitude of at most \<open>2\<^sup>-\<^sup>1\<^sup>0\<^sup>7\<^sup>5\<close>, half the least positive
  number, rounds to zero; one from \<open>2\<^sup>1\<^sup>0\<^sup>2\<^sup>4 - 2\<^sup>9\<^sup>7\<^sup>0\<close> on, half a step above the
  greatest finite number, rounds to an infinity.
\<close>

definition fl64 :: "real \<Rightarrow> jsnum" where
  "fl64 x =
     (if \<bar>x\<bar> \<le> 1 / 2 ^ 1075 then Fin 0
      else if 2 ^ 1024 - 2 ^ 970 \<le> \<bar>x\<bar> then (if 0 < x then PInf else NInf)
      else
        let q = max (expo \<bar>x\<bar> - 52) (- 1074)
        in Fin (sgn x * (of_int (round_even (\<bar>x\<bar> / 2 powi q)) * 2 powi q)))"

subsection \<open>Arithmetic under a rounding\<close>

text \<open>
  The four operations on two numbers, with the rounding \<open>rnd\<close> of a finite result as a
  parameter: \<open>fl64\<close> is the arithmetic of the program and \<open>Fin\<close> is exact arithmetic. The
  results on \<^verbatim>\<open>NaN\<close> and on the infinities do not depend on the rounding.
\<close>

fun add_with :: "(real \<Rightarrow> jsnum) \<Rightarrow> jsnum \<Rightarrow> jsnum \<Rightarrow> jsnum" where
  "add_with rnd (Fin a) (Fin b) = rnd (a + b)"
| "add_with rnd x y = js_add x y"

definition sub_with :: "(real \<Rightarrow> jsnum) \<Rightarrow> jsnum \<Rightarrow> jsnum \<Rightarrow> jsnum" where
  "sub_with rnd x y = add_with rnd x (js_neg y)"

fun mul_with :: "(real \<Rightarrow> jsnum) \<Rightarrow> jsnum \<Rightarrow> jsnum \<Rightarrow> jsnum" where
  "mul_with rnd (Fin a) (Fin b) = rnd (a * b)"
| "mul_with rnd NaN y = NaN"
| "mul_with rnd x NaN = NaN"
| "mul_with rnd (Fin a) y = (if a = 0 then NaN else if (0 < a) = (y = PInf) then PInf else NInf)"
| "mul_with rnd x (Fin b) = (if b = 0 then NaN else if (0 < b) = (x = PInf) then PInf else NInf)"
| "mul_with rnd x y = (if x = y then PInf else NInf)"

text \<open>A zero divisor is the positive zero.\<close>

fun div_with :: "(real \<Rightarrow> jsnum) \<Rightarrow> jsnum \<Rightarrow> jsnum \<Rightarrow> jsnum" where
  "div_with rnd (Fin a) (Fin b) =
     (if b = 0 then (if a = 0 then NaN else if 0 < a then PInf else NInf) else rnd (a / b))"
| "div_with rnd NaN y = NaN"
| "div_with rnd x NaN = NaN"
| "div_with rnd (Fin a) y = Fin 0"
| "div_with rnd x (Fin b) = (if (0 \<le> b) = (x = PInf) then PInf else NInf)"
| "div_with rnd x y = NaN"

text \<open>The product \<open>x * y\<close> of the program.\<close>

definition js_mul :: "jsnum \<Rightarrow> jsnum \<Rightarrow> jsnum" where
  "js_mul x y = mul_with fl64 x y"

text \<open>
  \<open>x / d\<close> for a finite divisor \<open>d\<close>. A zero divisor is the positive zero (the only
  zero the callers below can produce), so a nonzero dividend gives an infinity of its
  own sign and a zero dividend gives \<^verbatim>\<open>NaN\<close>.
\<close>

fun js_div_real :: "jsnum \<Rightarrow> real \<Rightarrow> jsnum" where
  "js_div_real (Fin a) d =
     (if d = 0 then (if a = 0 then NaN else if 0 < a then PInf else NInf) else Fin (a / d))"
| "js_div_real PInf d = (if 0 \<le> d then PInf else NInf)"
| "js_div_real NInf d = (if 0 \<le> d then NInf else PInf)"
| "js_div_real NaN d = NaN"

text \<open>\<open>x < y\<close>: every comparison with \<^verbatim>\<open>NaN\<close> is false.\<close>

fun js_less :: "jsnum \<Rightarrow> jsnum \<Rightarrow> bool" where
  "js_less (Fin a) (Fin b) = (a < b)"
| "js_less NaN y = False"
| "js_less x NaN = False"
| "js_less x NInf = False"
| "js_less NInf y = True"
| "js_less PInf y = False"
| "js_less x PInf = True"

fun js_abs :: "jsnum \<Rightarrow> jsnum" where
  "js_abs (Fin a) = Fin \<bar>a\<bar>"
| "js_abs PInf = PInf"
| "js_abs NInf = PInf"
| "js_abs NaN = NaN"

fun isFinite :: "jsnum \<Rightarrow> bool" where
  "isFinite (Fin a) = True"
| "isFinite x = False"

fun isNaN :: "jsnum \<Rightarrow> bool" where
  "isNaN NaN = True"
| "isNaN x = False"

text \<open>\<^verbatim>\<open>Number(x || 0)\<close> on a number: \<^verbatim>\<open>NaN\<close> and zero are falsy.\<close>

fun orZero :: "jsnum \<Rightarrow> jsnum" where
  "orZero NaN = Fin 0"
| "orZero x = x"

section \<open>Numeric primitives\<close>

subsection \<open>Quadratic least-squares fit\<close>

text \<open>The result object of the fit, with fields \<^verbatim>\<open>a\<close>, \<^verbatim>\<open>b\<close>, \<^verbatim>\<open>c\<close> and \<^verbatim>\<open>r2\<close>.\<close>

record fit =
  fit_a :: jsnum
  fit_b :: jsnum
  fit_c :: jsnum
  fit_r2 :: "jsnum option"

text \<open>
  The local \<^verbatim>\<open>det\<close>: a 3 by 3 determinant, the matrix given row by row, every product,
  difference and sum rounded, in the order in which JavaScript evaluates the expression.
\<close>

definition det :: "(real \<Rightarrow> jsnum) \<Rightarrow>
    (jsnum \<times> jsnum \<times> jsnum) \<times> (jsnum \<times> jsnum \<times> jsnum) \<times> (jsnum \<times> jsnum \<times> jsnum) \<Rightarrow> jsnum" where
  "det rnd m = (case m of ((m00, m01, m02), (m10, m11, m12), (m20, m21, m22)) \<Rightarrow>
     add_with rnd
       (sub_with rnd
          (mul_with rnd m00 (sub_with rnd (mul_with rnd m11 m22) (mul_with rnd m12 m21)))
          (mul_with rnd m01 (sub_with rnd (mul_with rnd m10 m22) (mul_with rnd m12 m20))))
       (mul_with rnd m02 (sub_with rnd (mul_with rnd m10 m21) (mul_with rnd m11 m20))))"

definition degenerate_fit :: fit where
  "degenerate_fit = \<lparr>fit_a = Fin 0, fit_b = Fin 0, fit_c = Fin 0, fit_r2 = None\<rparr>"

text \<open>
  Both loops of \<^verbatim>\<open>quadraticFit\<close> run over the indices of \<open>xs\<close> and read \<open>ys\<close> at the
  same index: \<open>points\<close> is the list of the pairs \<^verbatim>\<open>(Number(xs[i]), Number(ys[i]))\<close> they
  see. A \<open>ys\<close> shorter than \<open>xs\<close> is read past its end, which gives \<^verbatim>\<open>NaN\<close>.
\<close>

definition points :: "real list \<Rightarrow> real list \<Rightarrow> (jsnum \<times> jsnum) list" where
  "points xs ys =
     map (\<lambda>i. (Fin (xs ! i), if i < length ys then Fin (ys ! i) else NaN)) [0..<length xs]"

text \<open>An accumulator: \<^verbatim>\<open>let S = 0; for (...) S += v\<close>.\<close>

definition acc_sum :: "(real \<Rightarrow> jsnum) \<Rightarrow> jsnum list \<Rightarrow> jsnum" where
  "acc_sum rnd vs = fold (\<lambda>v S. add_with rnd S v) vs (Fin 0)"

text \<open>
  \<^verbatim>\<open>quadraticFit\<close> under the rounding \<open>rnd\<close>. The seven accumulators of the first loop
  and the two of the second do not depend on each other, so each is the accumulated sum
  of its own terms, in the order of the points. \<^verbatim>\<open>ys.reduce\<close> for the mean sums all of
  \<open>ys\<close>. The literal \<^verbatim>\<open>1e-12\<close> is a rounded number as well, and \<^verbatim>\<open>v ** 2\<close> is the rounded
  product \<open>v * v\<close>.
\<close>

definition quadraticFit_with :: "(real \<Rightarrow> jsnum) \<Rightarrow> real list \<Rightarrow> real list \<Rightarrow> fit" where
  "quadraticFit_with rnd xs ys =
     (let n = length xs in
      if n < 3 then degenerate_fit
      else
        let pts = points xs ys;
            Sx = acc_sum rnd (map (\<lambda>(x, y). x) pts);
            Sx2 = acc_sum rnd (map (\<lambda>(x, y). mul_with rnd x x) pts);
            Sx3 = acc_sum rnd (map (\<lambda>(x, y). mul_with rnd (mul_with rnd x x) x) pts);
            Sx4 = acc_sum rnd (map (\<lambda>(x, y). mul_with rnd (mul_with rnd x x) (mul_with rnd x x)) pts);
            Sy = acc_sum rnd (map (\<lambda>(x, y). y) pts);
            Sxy = acc_sum rnd (map (\<lambda>(x, y). mul_with rnd x y) pts);
            Sx2y = acc_sum rnd (map (\<lambda>(x, y). mul_with rnd (mul_with rnd x x) y) pts);
            N = Fin (real n);
            M = ((N, Sx, Sx2), (Sx, Sx2, Sx3), (Sx2, Sx3, Sx4));
            My = ((Sy, Sx, Sx2), (Sxy, Sx2, Sx3), (Sx2y, Sx3, Sx4));
            Mb = ((N, Sy, Sx2), (Sx, Sxy, Sx3), (Sx2, Sx2y, Sx4));
            Mc = ((N, Sx, Sy), (Sx, Sx2, Sxy), (Sx2, Sx3, Sx2y));
            D = det rnd M
        in
        if js_less (js_abs D) (rnd (1 / 10 ^ 12)) then degenerate_fit
        else
          let a = div_with rnd (det rnd My) D;
              b = div_with rnd (det rnd Mb) D;
              c = div_with rnd (det rnd Mc) D;
              yMean = div_with rnd (acc_sum rnd (map Fin ys)) N;
              yhat = (\<lambda>x. add_with rnd (add_with rnd a (mul_with rnd b x))
                                       (mul_with rnd (mul_with rnd c x) x));
              sq = (\<lambda>v. mul_with rnd v v);
              sse = acc_sum rnd (map (\<lambda>(x, y). sq (sub_with rnd y (yhat x))) pts);
              sst = acc_sum rnd (map (\<lambda>(x, y). sq (sub_with rnd y yMean)) pts)
          in \<lparr>fit_a = a, fit_b = b, fit_c = c,
              fit_r2 = (if js_less (Fin 0) sst
                        then Some (sub_with rnd (Fin 1) (div_with rnd sse sst)) else None)\<rparr>)"

text \<open>\<^verbatim>\<open>quadraticFit\<close> as the program computes it, on binary64 numbers.\<close>

definition quadraticFit :: "real list \<Rightarrow> real list \<Rightarrow> fit" where
  "quadraticFit xs ys = quadraticFit_with fl64 xs ys"

subsection \<open>Interpolation of a yearly series\<close>

text \<open>
  The skip test of \<^verbatim>\<open>interpolateSeries\<close>
  (\<^verbatim>\<open>s[i] === "" || s[i] == null || !Number.isFinite(Number(s[i]))\<close>) holds exactly for
  the blank entries; \<open>filled\<close> is its negation.
\<close>

definition filled :: "cell \<Rightarrow> bool" where
  "filled c = (c \<noteq> None)"

text \<open>The inner loop: \<^verbatim>\<open>for (k = lastIdx + 1; k < i; k++) s[k] = Number(s[lastIdx]) + dv * (k - lastIdx)\<close>.\<close>

definition fill_gap :: "nat \<Rightarrow> nat \<Rightarrow> real \<Rightarrow> cell list \<Rightarrow> cell list" where
  "fill_gap lastIdx i dv s =
     fold (\<lambda>k s. s[k := Some (num0 (s ! lastIdx) + dv * real (k - lastIdx))]) [Suc lastIdx..<i] s"

text \<open>One pass of the outer loop body at index \<open>i\<close>, on the copy \<open>s\<close> and \<open>lastIdx\<close>.\<close>

definition interpolate_step :: "nat \<Rightarrow> cell list \<times> nat option \<Rightarrow> cell list \<times> nat option" where
  "interpolate_step i st =
     (case st of (s, lastIdx) \<Rightarrow>
        if \<not> filled (s ! i) then (s, lastIdx)
        else (case lastIdx of
                None \<Rightarrow> (s, Some i)
              | Some l \<Rightarrow>
                  (let dv = (num0 (s ! i) - num0 (s ! l)) / real (i - l)
                   in (fill_gap l i dv s, Some i))))"

definition interpolateSeries :: "cell list \<Rightarrow> cell list" where
  "interpolateSeries series = fst (fold interpolate_step [0..<length series] (series, None))"

subsection \<open>Net present value and internal rate of return\<close>

text \<open>
  \<^verbatim>\<open>amounts.reduce((acc, amt, i) => acc + Number(amt) / Math.pow(1 + r, Math.max(0, years[i] - baseYear)), 0)\<close>.
  Where \<open>years\<close> is shorter than \<open>amounts\<close> the exponent, and with it the term, is \<^verbatim>\<open>NaN\<close>.
\<close>

definition npv_term :: "real \<Rightarrow> int list \<Rightarrow> int \<Rightarrow> nat \<Rightarrow> jsnum \<Rightarrow> jsnum" where
  "npv_term r years baseYear i amt =
     (if i < length years
      then js_div_real amt ((1 + r) ^ nat (max 0 (years ! i - baseYear)))
      else NaN)"

fun npv_from :: "real \<Rightarrow> jsnum list \<Rightarrow> int list \<Rightarrow> int \<Rightarrow> nat \<Rightarrow> jsnum \<Rightarrow> jsnum" where
  "npv_from r [] years baseYear i acc = acc"
| "npv_from r (amt # amts) years baseYear i acc =
     npv_from r amts years baseYear (Suc i) (js_add acc (npv_term r years baseYear i amt))"

definition npv :: "real \<Rightarrow> jsnum list \<Rightarrow> int list \<Rightarrow> int \<Rightarrow> jsnum" where
  "npv rate amounts years baseYear = npv_from rate amounts years baseYear 0 (Fin 0)"

text \<open>
  The bisection loop of \<^verbatim>\<open>irr\<close>; the first argument counts the iterations that remain
  (\<^verbatim>\<open>maxIter - it\<close>). The source also keeps \<^verbatim>\<open>fHi\<close>, which it never reads after the
  bracket test.
\<close>

fun irr_loop :: "(real \<Rightarrow> jsnum) \<Rightarrow> real \<Rightarrow> nat \<Rightarrow> real \<Rightarrow> real \<Rightarrow> jsnum \<Rightarrow> real" where
  "irr_loop f tol 0 lo hi fLo = (lo + hi) / 2"
| "irr_loop f tol (Suc k) lo hi fLo =
     (let mid = (lo + hi) / 2; fMid = f mid in
      if js_less (js_abs fMid) (Fin tol) then mid
      else if js_less (js_mul fLo fMid) (Fin 0) then irr_loop f tol k lo mid fLo
      else irr_loop f tol k mid hi fMid)"

definition irr_with :: "jsnum list \<Rightarrow> int list \<Rightarrow> int \<Rightarrow> real \<Rightarrow> real \<Rightarrow> real \<Rightarrow> nat \<Rightarrow> real option" where
  "irr_with amounts years baseYear guessLow guessHigh tol maxIter =
     (let f = (\<lambda>r. npv r amounts years baseYear);
          fLo = f guessLow; fHi = f guessHigh in
      if isNaN fLo \<or> isNaN fHi then None
      else if js_less (Fin 0) (js_mul fLo fHi) then None
      else Some (irr_loop f tol maxIter guessLow guessHigh fLo))"

text \<open>\<^verbatim>\<open>irr\<close> with its default arguments, as every caller uses it.\<close>

definition irr :: "jsnum list \<Rightarrow> int list \<Rightarrow> int \<Rightarrow> real option" where
  "irr amounts years baseYear = irr_with amounts years baseYear (- 9 / 10) 3 (1 / 10 ^ 6) 100"

section \<open>Catalogs and driver lines\<close>

text \<open>
  A row of the fuel, raw-material, transport or waste catalog, with the keys the engine
  reads. A key that is missing or \<^verbatim>\<open>null\<close> is \<open>None\<close>.
\<close>

record frtw_row =
  name :: "string option"
  price :: "real option"
  price_per_unit_inr :: "real option"
  ef_tco2_per_unit :: "real option"
  ef_t_per_unit :: "real option"

record elec_row =
  state :: "string option"
  price_per_mwh :: "real option"
  price_per_mwh_inr :: "real option"
  ef_tco2_per_mwh :: "real option"

record catalogs =
  fuels :: "frtw_row list"
  raw :: "frtw_row list"
  transport :: "frtw_row list"
  waste :: "frtw_row list"
  electricity :: "elec_row list"

text \<open>
  The getters take the result of a catalog lookup, which is \<^verbatim>\<open>undefined\<close> (\<open>None\<close>)
  when no row was found.
\<close>

definition getUnitPrice :: "frtw_row option \<Rightarrow> real" where
  "getUnitPrice row =
     (case row of None \<Rightarrow> 0
      | Some r \<Rightarrow> (case price r of Some p \<Rightarrow> p
                  | None \<Rightarrow> (case price_per_unit_inr r of Some p \<Rightarrow> p | None \<Rightarrow> 0)))"

definition getEFperUnit :: "frtw_row option \<Rightarrow> real" where
  "getEFperUnit row =
     (case row of None \<Rightarrow> 0
      | Some r \<Rightarrow> (case ef_tco2_per_unit r of Some e \<Rightarrow> e
                  | None \<Rightarrow> (case ef_t_per_unit r of Some e \<Rightarrow> e | None \<Rightarrow> 0)))"

definition getElecPricePerMWh :: "elec_row option \<Rightarrow> real" where
  "getElecPricePerMWh row =
     (case row of None \<Rightarrow> 500
      | Some r \<Rightarrow> (case price_per_mwh r of Some p \<Rightarrow> p
                  | None \<Rightarrow> (case price_per_mwh_inr r of Some p \<Rightarrow> p | None \<Rightarrow> 500)))"

definition getElecEFperMWh :: "elec_row option \<Rightarrow> real" where
  "getElecEFperMWh row =
     (case row of None \<Rightarrow> 710 / 1000
      | Some r \<Rightarrow> (case ef_tco2_per_mwh r of Some e \<Rightarrow> e | None \<Rightarrow> 710 / 1000))"

text \<open>
  The keys a fuel, raw, transport or waste line and an electricity line have in common,
  then the two kinds of line. The key \<^verbatim>\<open>name\<close> of a line is \<open>line_name\<close> and the key
  \<^verbatim>\<open>state\<close> is \<open>line_state\<close>, since the catalog rows have keys of the same names. The
  key \<^verbatim>\<open>id\<close> of a line, which only the editor reads, is left out.
\<close>

record line_common =
  priceOv :: "real option"
  priceEscPctYr :: real
  efEscPctYr :: real

record driver_line = line_common +
  line_name :: string
  efOv :: "real option"
  delta :: "cell list"

record elec_line = line_common +
  line_state :: string
  efOvPerYear :: "cell list"
  deltaMWh :: "cell list"

subsection \<open>One fuel, raw, transport or waste line in one year\<close>

text \<open>
  The source repeats one loop body for the four categories, each with its own catalog
  \<open>DS\<close>; the body is modelled once. \<open>a\<close> is the clamped adoption of the year and \<open>i\<close>
  the index of the year.
\<close>

definition frtw_base :: "frtw_row list \<Rightarrow> driver_line \<Rightarrow> frtw_row option" where
  "frtw_base DS lin = find (\<lambda>x. name x = Some (line_name lin)) DS"

definition frtw_basePrice :: "frtw_row list \<Rightarrow> driver_line \<Rightarrow> real" where
  "frtw_basePrice DS lin =
     (case priceOv lin of Some p \<Rightarrow> p | None \<Rightarrow> getUnitPrice (frtw_base DS lin))"

definition frtw_effPrice :: "frtw_row list \<Rightarrow> driver_line \<Rightarrow> nat \<Rightarrow> real" where
  "frtw_effPrice DS lin yearsSinceBase =
     frtw_basePrice DS lin * (1 + priceEscPctYr lin / 100) ^ yearsSinceBase"

definition frtw_baseEf :: "frtw_row list \<Rightarrow> driver_line \<Rightarrow> real" where
  "frtw_baseEf DS lin =
     (case efOv lin of Some e \<Rightarrow> e | None \<Rightarrow> getEFperUnit (frtw_base DS lin))"

definition frtw_effEf :: "frtw_row list \<Rightarrow> driver_line \<Rightarrow> nat \<Rightarrow> real" where
  "frtw_effEf DS lin yearsSinceBase =
     frtw_baseEf DS lin * (1 + efEscPctYr lin / 100) ^ yearsSinceBase"

definition frtw_qty :: "real \<Rightarrow> nat \<Rightarrow> driver_line \<Rightarrow> real" where
  "frtw_qty adopt i lin = adopt * num0 (cell_at (delta lin) i)"

text \<open>What the line adds to the category's tonnes and to \<^verbatim>\<open>driver_cr\<close>.\<close>

definition frtw_t :: "frtw_row list \<Rightarrow> real \<Rightarrow> nat \<Rightarrow> nat \<Rightarrow> driver_line \<Rightarrow> real" where
  "frtw_t DS adopt yearsSinceBase i lin = frtw_qty adopt i lin * frtw_effEf DS lin yearsSinceBase"

definition frtw_cr :: "frtw_row list \<Rightarrow> real \<Rightarrow> nat \<Rightarrow> nat \<Rightarrow> driver_line \<Rightarrow> real" where
  "frtw_cr DS adopt yearsSinceBase i lin =
     (frtw_qty adopt i lin * frtw_effPrice DS lin yearsSinceBase) / 10000000"

subsection \<open>One electricity line in one year\<close>

text \<open>\<^verbatim>\<open>DS_ELECTRICITY.find(x => x.state === ln.state) || DS_ELECTRICITY[0]\<close>\<close>

definition elec_base :: "elec_row list \<Rightarrow> elec_line \<Rightarrow> elec_row option" where
  "elec_base DS lin =
     (case find (\<lambda>x. state x = Some (line_state lin)) DS of
        Some r \<Rightarrow> Some r
      | None \<Rightarrow> (case DS of [] \<Rightarrow> None | r # rest \<Rightarrow> Some r))"

definition elec_basePrice :: "elec_row list \<Rightarrow> elec_line \<Rightarrow> real" where
  "elec_basePrice DS lin =
     (case priceOv lin of Some p \<Rightarrow> p | None \<Rightarrow> getElecPricePerMWh (elec_base DS lin))"

definition elec_effPrice :: "elec_row list \<Rightarrow> elec_line \<Rightarrow> nat \<Rightarrow> real" where
  "elec_effPrice DS lin yearsSinceBase =
     elec_basePrice DS lin * (1 + priceEscPctYr lin / 100) ^ yearsSinceBase"

text \<open>\<^verbatim>\<open>ln.efOvPerYear[i] !== "" && ln.efOvPerYear[i] != null\<close>\<close>

definition hasPerYearOv :: "elec_line \<Rightarrow> nat \<Rightarrow> bool" where
  "hasPerYearOv lin i = (cell_at (efOvPerYear lin) i \<noteq> None)"

definition elec_baseEf :: "elec_row list \<Rightarrow> elec_line \<Rightarrow> real" where
  "elec_baseEf DS lin = getElecEFperMWh (elec_base DS lin)"

definition elec_effEf :: "elec_row list \<Rightarrow> elec_line \<Rightarrow> nat \<Rightarrow> nat \<Rightarrow> real" where
  "elec_effEf DS lin yearsSinceBase i =
     (if hasPerYearOv lin i then num0 (cell_at (efOvPerYear lin) i)
      else elec_baseEf DS lin * (1 + efEscPctYr lin / 100) ^ yearsSinceBase)"

definition elec_mwh :: "real \<Rightarrow> nat \<Rightarrow> elec_line \<Rightarrow> real" where
  "elec_mwh adopt i lin = adopt * num0 (cell_at (deltaMWh lin) i)"

definition elec_line_t :: "elec_row list \<Rightarrow> real \<Rightarrow> nat \<Rightarrow> nat \<Rightarrow> elec_line \<Rightarrow> real" where
  "elec_line_t DS adopt yearsSinceBase i lin = elec_mwh adopt i lin * elec_effEf DS lin yearsSinceBase i"

definition elec_line_cr :: "elec_row list \<Rightarrow> real \<Rightarrow> nat \<Rightarrow> nat \<Rightarrow> elec_line \<Rightarrow> real" where
  "elec_line_cr DS adopt yearsSinceBase i lin =
     (elec_mwh adopt i lin * elec_effPrice DS lin yearsSinceBase) / 10000000"

section \<open>The measure computation of the wizard\<close>

record stack =
  opex_cr :: "cell list"
  savings_cr :: "cell list"
  other_cr :: "cell list"
  capex_upfront_cr :: "cell list"
  capex_financed_cr :: "cell list"
  financing_tenure_years :: "cell list"
  interest_rate_pct :: "cell list"

text \<open>The wizard's \<^verbatim>\<open>meta\<close>; its key \<^verbatim>\<open>sector\<close> is \<open>meta_sector\<close> here.\<close>

record meta =
  project_name :: string
  meta_sector :: string
  discount_rate :: real
  project_life_years :: real

text \<open>
  The state and the properties of the wizard that \<^verbatim>\<open>computed\<close> and \<^verbatim>\<open>saveTemplate\<close>
  read. \<open>carbonPrice\<close> is the value of \<^verbatim>\<open>Number(carbonPrice || 0)\<close>, and
  \<open>initialMeasure_id\<close> that of \<^verbatim>\<open>initialMeasure?.id\<close>.
\<close>

record wizard =
  adoption :: "cell list"
  fuelLines :: "driver_line list"
  rawLines :: "driver_line list"
  transLines :: "driver_line list"
  wasteLines :: "driver_line list"
  elecLines :: "elec_line list"
  otherDirectT :: "cell list"
  stack :: stack
  meta :: meta
  carbonPrice :: real
  applyCarbonPriceInSave :: bool
  dataSources :: catalogs
  initialMeasure_id :: "nat option"

definition YEARS :: "int list" where
  "YEARS = [2025, 2030, 2035, 2040, 2045, 2050]"

definition BASE_YEAR :: int where
  "BASE_YEAR = 2025"

text \<open>
  \<^verbatim>\<open>Math.pow(1 + R, N)\<close> with a real exponent is \<open>powr\<close>, which agrees with it for a
  positive base; \<^verbatim>\<open>computed\<close> calls \<^verbatim>\<open>annuityFactor\<close> with \<open>R > 0\<close> only.
\<close>

definition annuityFactor :: "real \<Rightarrow> real \<Rightarrow> real" where
  "annuityFactor R N =
     (if N \<le> 0 then 0
      else if \<bar>R\<bar> < 1 / 10 ^ 9 then 1 / N
      else (R * (1 + R) powr N) / ((1 + R) powr N - 1))"

text \<open>The body of \<^verbatim>\<open>YEARS.map((year, i) => ...)\<close>.\<close>

definition perYear_entry :: "wizard \<Rightarrow> nat \<Rightarrow> int \<Rightarrow> per_year" where
  "perYear_entry w i yr =
     (let adopt = max 0 (min 1 (num0 (cell_at (adoption w) i)));
          yearsSinceBase = nat (max 0 (yr - BASE_YEAR));
          DS = dataSources w;
          fuel = (\<Sum>lin\<leftarrow>fuelLines w. frtw_t (fuels DS) adopt yearsSinceBase i lin);
          rawt = (\<Sum>lin\<leftarrow>rawLines w. frtw_t (raw DS) adopt yearsSinceBase i lin);
          trans = (\<Sum>lin\<leftarrow>transLines w. frtw_t (transport DS) adopt yearsSinceBase i lin);
          wastet = (\<Sum>lin\<leftarrow>wasteLines w. frtw_t (waste DS) adopt yearsSinceBase i lin);
          elec = (\<Sum>lin\<leftarrow>elecLines w. elec_line_t (electricity DS) adopt yearsSinceBase i lin);
          driver =
              (\<Sum>lin\<leftarrow>fuelLines w. frtw_cr (fuels DS) adopt yearsSinceBase i lin)
            + (\<Sum>lin\<leftarrow>rawLines w. frtw_cr (raw DS) adopt yearsSinceBase i lin)
            + (\<Sum>lin\<leftarrow>transLines w. frtw_cr (transport DS) adopt yearsSinceBase i lin)
            + (\<Sum>lin\<leftarrow>wasteLines w. frtw_cr (waste DS) adopt yearsSinceBase i lin)
            + (\<Sum>lin\<leftarrow>elecLines w. elec_line_cr (electricity DS) adopt yearsSinceBase i lin);
          other = adopt * num0 (cell_at (otherDirectT w) i);
          direct = fuel + rawt + trans + wastet + elec + other;
          opex = num0 (cell_at (opex_cr (stack w)) i);
          savings = num0 (cell_at (savings_cr (stack w)) i);
          othercr = num0 (cell_at (other_cr (stack w)) i);
          capex_upfront = num0 (cell_at (capex_upfront_cr (stack w)) i);
          capex_financed = num0 (cell_at (capex_financed_cr (stack w)) i);
          i_nominal = num0 (cell_at (interest_rate_pct (stack w)) i) / 100;
          n_tenure = num0 (cell_at (financing_tenure_years (stack w)) i);
          financedAnnual =
            (if capex_financed > 0 \<and> i_nominal > 0 \<and> n_tenure > 0
             then capex_financed * annuityFactor i_nominal n_tenure else 0);
          net_cost = (driver + opex + othercr - savings) + financedAnnual;
          cashflow_wo =
            (savings - opex - driver - othercr - financedAnnual - capex_upfront) * 10000000;
          cashflow_w = cashflow_wo + carbonPrice w * direct;
          implied_wo = (if direct > 0 then (net_cost * 10000000) / direct else 0);
          implied_w =
            (if direct > 0 then ((net_cost * 10000000) - carbonPrice w * direct) / direct else 0)
      in \<lparr>year = yr, direct_t = direct, net_cost_cr = net_cost,
          implied_cost_per_t_wo = implied_wo, implied_cost_per_t_w = implied_w,
          cashflow_inr_wo_cp = cashflow_wo, cashflow_inr_w_cp = cashflow_w,
          pieces = \<lparr>fuel_t = fuel, raw_t = rawt, trans_t = trans, waste_t = wastet,
            elec_t = elec, other_t = other, driver_cr = driver, pc_opex_cr = opex,
            pc_other_cr = othercr, pc_savings_cr = savings,
            financedAnnual_cr = financedAnnual, pc_capex_upfront_cr = capex_upfront\<rparr>\<rparr>)"

definition perYear_of :: "wizard \<Rightarrow> per_year list" where
  "perYear_of w = map (\<lambda>(i, yr). perYear_entry w i yr) (enumerate 0 YEARS)"

record finance =
  npvWO :: jsnum
  npvW :: jsnum
  irrWO :: "real option"
  irrW :: "real option"
  avgCostWO :: real
  avgCostW :: real
  sumDirect :: real

text \<open>
  The object \<^verbatim>\<open>computed\<close> returns; its keys \<^verbatim>\<open>YEARS\<close> and \<^verbatim>\<open>BASE_YEAR\<close> are
  \<open>cYEARS\<close> and \<open>cBASE_YEAR\<close> here.
\<close>

record computed_result =
  cYEARS :: "int list"
  cBASE_YEAR :: int
  perYear :: "per_year list"
  repIdx :: int
  rep :: per_year
  finance :: finance

text \<open>
  The object that stands in for \<^verbatim>\<open>perYear[repIdx]\<close> when that is \<^verbatim>\<open>undefined\<close>. The
  source gives it the three keys \<^verbatim>\<open>saveTemplate\<close> reads; the others are zero here.
\<close>

definition rep_default :: per_year where
  "rep_default =
     \<lparr>year = 0, direct_t = 0, net_cost_cr = 0, implied_cost_per_t_wo = 0,
      implied_cost_per_t_w = 0, cashflow_inr_wo_cp = 0, cashflow_inr_w_cp = 0,
      pieces = \<lparr>fuel_t = 0, raw_t = 0, trans_t = 0, waste_t = 0, elec_t = 0, other_t = 0,
        driver_cr = 0, pc_opex_cr = 0, pc_other_cr = 0, pc_savings_cr = 0,
        financedAnnual_cr = 0, pc_capex_upfront_cr = 0\<rparr>\<rparr>"

text \<open>\<^verbatim>\<open>arr[k] || fallback\<close> for an array of objects and an integer \<open>k\<close>.\<close>

definition at_or :: "'a list \<Rightarrow> int \<Rightarrow> 'a \<Rightarrow> 'a" where
  "at_or xs k d = (if 0 \<le> k \<and> nat k < length xs then xs ! nat k else d)"

definition finance_of :: "wizard \<Rightarrow> per_year list \<Rightarrow> finance" where
  "finance_of w py =
     (let years = map year py;
          flowsWO = map (\<lambda>y. Fin (cashflow_inr_wo_cp y)) py;
          flowsW = map (\<lambda>y. Fin (cashflow_inr_w_cp y)) py;
          r = (if discount_rate (meta w) = 0 then 10 / 100 else discount_rate (meta w));
          sumD = (\<Sum>y\<leftarrow>py. max 0 (direct_t y));
          sumCostInrWO = (\<Sum>y\<leftarrow>py. net_cost_cr y * 10000000);
          sumCostInrW = (\<Sum>y\<leftarrow>py. (net_cost_cr y * 10000000) - carbonPrice w * direct_t y)
      in \<lparr>npvWO = npv r flowsWO years BASE_YEAR,
          npvW = npv r flowsW years BASE_YEAR,
          irrWO = irr flowsWO years BASE_YEAR,
          irrW = irr flowsW years BASE_YEAR,
          avgCostWO = (if sumD > 0 then sumCostInrWO / sumD else 0),
          avgCostW = (if sumD > 0 then sumCostInrW / sumD else 0),
          sumDirect = sumD\<rparr>)"

definition computed :: "wizard \<Rightarrow> computed_result" where
  "computed w =
     (let py = perYear_of w; ri = repIdx_of YEARS py
      in \<lparr>cYEARS = YEARS, cBASE_YEAR = BASE_YEAR, perYear = py, repIdx = ri,
          rep = at_or py ri rep_default, finance = finance_of w py\<rparr>)"

subsection \<open>The wizard's initial state\<close>

definition makeZeros :: "cell list" where
  "makeZeros = map (\<lambda>y. Some 0) YEARS"

definition makeEmptyEf :: "cell list" where
  "makeEmptyEf = map (\<lambda>y. None) YEARS"

text \<open>\<^verbatim>\<open>DS[0]?.name || fallback\<close>, for the key \<open>k\<close> of the first row of a catalog.\<close>

definition first_key_or :: "('r \<Rightarrow> string option) \<Rightarrow> 'r list \<Rightarrow> string \<Rightarrow> string" where
  "first_key_or k DS fallback =
     (case DS of
        [] \<Rightarrow> fallback
      | r # rest \<Rightarrow> (case k r of None \<Rightarrow> fallback | Some n \<Rightarrow> if n = [] then fallback else n))"

definition initial_driver_line :: "frtw_row list \<Rightarrow> driver_line" where
  "initial_driver_line DS =
     \<lparr>priceOv = None, priceEscPctYr = 0, efEscPctYr = 0,
      line_name = first_key_or name DS [], efOv = None, delta = makeZeros\<rparr>"

definition initial_elec_line :: "elec_row list \<Rightarrow> elec_line" where
  "initial_elec_line DS =
     \<lparr>priceOv = None, priceEscPctYr = 0, efEscPctYr = 0,
      line_state = first_key_or state DS ''India'', efOvPerYear = makeEmptyEf,
      deltaMWh = makeZeros\<rparr>"

text \<open>
  The values the \<^verbatim>\<open>useState\<close> calls of the wizard start from, for a new measure, given
  the firm's sectors, the carbon price and the resolved catalogs.
\<close>

definition initial_wizard :: "string list \<Rightarrow> real \<Rightarrow> catalogs \<Rightarrow> wizard" where
  "initial_wizard sectors cp DS =
     \<lparr>adoption = map (\<lambda>(i, y). Some (if i = 0 then 0 else (2 / 10) * real i)) (enumerate 0 YEARS),
      fuelLines = [initial_driver_line (fuels DS)],
      rawLines = [initial_driver_line (raw DS)],
      transLines = [initial_driver_line (transport DS)],
      wasteLines = [initial_driver_line (waste DS)],
      elecLines = [initial_elec_line (electricity DS)],
      otherDirectT = makeZeros,
      stack = \<lparr>opex_cr = makeZeros, savings_cr = makeZeros, other_cr = makeZeros,
        capex_upfront_cr = makeZeros, capex_financed_cr = makeZeros,
        financing_tenure_years = map (\<lambda>y. Some 10) YEARS,
        interest_rate_pct = map (\<lambda>y. Some 7) YEARS\<rparr>,
      meta = \<lparr>project_name = ''Industrial Efficiency Project'',
        meta_sector = (case sectors of [] \<Rightarrow> ''Power'' | s # rest \<Rightarrow> if s = [] then ''Power'' else s),
        discount_rate = 10 / 100, project_life_years = 30\<rparr>,
      carbonPrice = cp,
      applyCarbonPriceInSave = False,
      dataSources = DS,
      initialMeasure_id = None\<rparr>"

text \<open>The catalogs before any data is loaded.\<close>

definition empty_catalogs :: catalogs where
  "empty_catalogs = \<lparr>fuels = [], raw = [], transport = [], waste = [], electricity = []\<rparr>"

section \<open>Saved measures\<close>

record drivers =
  fuel_lines :: "driver_line list"
  raw_lines :: "driver_line list"
  transport_lines :: "driver_line list"
  waste_lines :: "driver_line list"
  electricity_lines :: "elec_line list"
  other_direct_t :: "cell list"

text \<open>
  The \<^verbatim>\<open>details\<close> of a measure saved from the template tab; their keys \<^verbatim>\<open>meta\<close>,
  \<^verbatim>\<open>adoption\<close> and \<^verbatim>\<open>stack\<close> carry the prefix \<open>d_\<close> here.
\<close>

record template_details =
  years :: "int list"
  d_meta :: meta
  d_adoption :: "cell list"
  drivers :: drivers
  d_stack :: stack
  per_year :: "per_year list"
  representative_index :: int
  finance_summary :: finance
  saved_cost_includes_carbon_price :: bool
  carbon_price_at_save :: real

text \<open>
  The \<^verbatim>\<open>details\<close> by their \<^verbatim>\<open>mode\<close>: \<^verbatim>\<open>"quick"\<close>, which has no other key, and
  \<^verbatim>\<open>"template_db_multiline"\<close>.
\<close>

datatype details = Quick | Template template_details

text \<open>
  A measure. Its keys \<^verbatim>\<open>id\<close>, \<^verbatim>\<open>name\<close> and \<^verbatim>\<open>details\<close> are \<open>measure_id\<close>,
  \<open>measure_name\<close> and \<open>measure_details\<close>; an imported measure may have no details.
\<close>

record measure =
  measure_id :: "nat option"
  measure_name :: string
  sector :: string
  abatement_tco2 :: jsnum
  cost_per_tco2 :: jsnum
  selected :: bool
  measure_details :: "details option"

text \<open>
  \<^verbatim>\<open>saveTemplate\<close> hands the measure to \<^verbatim>\<open>onSave\<close>, or returns without saving when the
  representative abatement is not positive and the user declines the confirmation.
  \<open>confirm\<close> is the user's answer (true where there is no window).
\<close>

definition saveTemplate :: "wizard \<Rightarrow> bool \<Rightarrow> measure option" where
  "saveTemplate w confirm =
     (let cmp = computed w;
          repAbate = max 0 (direct_t (rep cmp));
          repCost = (if applyCarbonPriceInSave w then implied_cost_per_t_w (rep cmp)
                     else implied_cost_per_t_wo (rep cmp))
      in if repAbate \<le> 0 \<and> \<not> confirm then None
         else Some
           \<lparr>measure_id = initialMeasure_id w,
            measure_name = project_name (meta w),
            sector = meta_sector (meta w),
            abatement_tco2 = Fin repAbate,
            cost_per_tco2 = Fin repCost,
            selected = True,
            measure_details = Some (Template
              \<lparr>years = cYEARS cmp,
               d_meta = meta w,
               d_adoption = adoption w,
               drivers = \<lparr>fuel_lines = fuelLines w, raw_lines = rawLines w,
                 transport_lines = transLines w, waste_lines = wasteLines w,
                 electricity_lines = elecLines w, other_direct_t = otherDirectT w\<rparr>,
               d_stack = stack w,
               per_year = perYear cmp,
               representative_index = repIdx cmp,
               finance_summary = finance cmp,
               saved_cost_includes_carbon_price = applyCarbonPriceInSave w,
               carbon_price_at_save = carbonPrice w\<rparr>)\<rparr>)"

section \<open>Catalog resolver\<close>

text \<open>\<^verbatim>\<open>String.prototype.toLowerCase\<close> on ASCII text.\<close>

definition lower_char :: "char \<Rightarrow> char" where
  "lower_char ch =
     (let n = (of_char ch :: nat) in if 65 \<le> n \<and> n \<le> 90 then char_of (n + 32) else ch)"

definition toLowerCase :: "string \<Rightarrow> string" where
  "toLowerCase s = map lower_char s"

text \<open>
  A JavaScript \<^verbatim>\<open>Map\<close> keeps its keys in insertion order, and \<^verbatim>\<open>set\<close> on a key that
  is present replaces the value in place: the map is an association list and \<^verbatim>\<open>set\<close>
  is \<^const>\<open>AList.update\<close>. The callback of the two \<^verbatim>\<open>forEach\<close> loops stores a row
  under its lower-cased key when the key is truthy (present and not the empty string);
  \<open>row_key\<close> is that key, if any. \<open>keyName\<close> reads the key, \<^verbatim>\<open>name\<close> or \<^verbatim>\<open>state\<close>,
  off a row.
\<close>

definition row_key :: "('r \<Rightarrow> string option) \<Rightarrow> 'r \<Rightarrow> string option" where
  "row_key keyName x =
     (case keyName x of
        None \<Rightarrow> None
      | Some k \<Rightarrow> if k = [] then None else Some (toLowerCase k))"

definition merge_row :: "('r \<Rightarrow> string option) \<Rightarrow> 'r \<Rightarrow> (string \<times> 'r) list \<Rightarrow> (string \<times> 'r) list" where
  "merge_row keyName x m =
     (case row_key keyName x of None \<Rightarrow> m | Some k \<Rightarrow> AList.update k x m)"

definition mergedBy :: "'r list \<Rightarrow> 'r list \<Rightarrow> ('r \<Rightarrow> string option) \<Rightarrow> 'r list" where
  "mergedBy arrA arrB keyName =
     map snd (fold (merge_row keyName) arrB (fold (merge_row keyName) arrA []))"

definition resolvedCatalogs :: "catalogs \<Rightarrow> catalogs \<Rightarrow> string \<Rightarrow> catalogs" where
  "resolvedCatalogs sample custom catalogMode =
     (if catalogMode = ''sample'' then sample
      else if catalogMode = ''custom'' then custom
      else \<lparr>fuels = mergedBy (fuels sample) (fuels custom) name,
            raw = mergedBy (raw sample) (raw custom) name,
            transport = mergedBy (transport sample) (transport custom) name,
            waste = mergedBy (waste sample) (waste custom) name,
            electricity = mergedBy (electricity sample) (electricity custom) state\<rparr>)"

section \<open>Cost normalisation and ranking\<close>

definition filtered_measures :: "measure list \<Rightarrow> string \<Rightarrow> measure list" where
  "filtered_measures ms selectedSector =
     filter (\<lambda>m. selected m \<and> (selectedSector = ''All sectors'' \<or> sector m = selectedSector))
       ms"

text \<open>\<^verbatim>\<open>Boolean(m?.details?.saved_cost_includes_carbon_price)\<close>\<close>

definition savedIncludesCP :: "measure \<Rightarrow> bool" where
  "savedIncludesCP m =
     (case measure_details m of
        Some (Template d) \<Rightarrow> saved_cost_includes_carbon_price d
      | _ \<Rightarrow> False)"

text \<open>\<^verbatim>\<open>Number(m?.details?.carbon_price_at_save || 0)\<close>\<close>

definition cpAtSave :: "measure \<Rightarrow> jsnum" where
  "cpAtSave m =
     (case measure_details m of
        Some (Template d) \<Rightarrow> Fin (carbon_price_at_save d)
      | _ \<Rightarrow> Fin 0)"

definition effective_cost_of :: "jsnum \<Rightarrow> measure \<Rightarrow> jsnum" where
  "effective_cost_of carbonPriceNow m =
     (let baseCost = orZero (cost_per_tco2 m);
          cpNow = orZero carbonPriceNow
      in if savedIncludesCP m then js_sub baseCost (js_sub cpNow (cpAtSave m))
         else js_sub baseCost cpNow)"

text \<open>A measure with its effective cost: \<^verbatim>\<open>{ ...m, effective_cost }\<close>.\<close>

record ranked = measure +
  effective_cost :: jsnum

definition with_effective_cost :: "jsnum \<Rightarrow> measure \<Rightarrow> ranked" where
  "with_effective_cost carbonPriceNow m =
     measure.extend m \<lparr>effective_cost = effective_cost_of carbonPriceNow m\<rparr>"

text \<open>
  The comparator \<^verbatim>\<open>(a, b) => (a.effective_cost || 0) - (b.effective_cost || 0)\<close>;
  \<open>cmp_le x y\<close> says that its value is not positive. A \<^verbatim>\<open>NaN\<close> value (two infinities of
  one sign) counts as zero in \<^verbatim>\<open>Array.prototype.sort\<close>.
\<close>

definition cmp_le :: "ranked \<Rightarrow> ranked \<Rightarrow> bool" where
  "cmp_le x y =
     (\<not> js_less (Fin 0) (js_sub (orZero (effective_cost x)) (orZero (effective_cost y))))"

text \<open>
  \<^verbatim>\<open>Array.prototype.sort\<close> is stable, and the comparator is a total preorder, so the
  result is the one of a stable insertion sort.
\<close>

fun insort_by :: "('a \<Rightarrow> 'a \<Rightarrow> bool) \<Rightarrow> 'a \<Rightarrow> 'a list \<Rightarrow> 'a list" where
  "insort_by le x [] = [x]"
| "insort_by le x (y # ys) = (if le x y then x # y # ys else y # insort_by le x ys)"

definition sort_by :: "('a \<Rightarrow> 'a \<Rightarrow> bool) \<Rightarrow> 'a list \<Rightarrow> 'a list" where
  "sort_by le xs = foldr (insort_by le) xs []"

definition sorted_measures :: "jsnum \<Rightarrow> measure list \<Rightarrow> ranked list" where
  "sorted_measures carbonPriceNow filtered =
     sort_by cmp_le (map (with_effective_cost carbonPriceNow) filtered)"

section \<open>Curve builder\<close>

definition PALETTE :: "string list" where
  "PALETTE =
     [''#4e79a7'', ''#f28e2b'', ''#e15759'', ''#76b7b2'', ''#59a14f'',
      ''#edc949'', ''#af7aa1'', ''#ff9da7'', ''#9c755f'', ''#bab0ab'',
      ''#2f4b7c'', ''#ffa600'', ''#a05195'', ''#003f5c'', ''#d45087'',
      ''#1f77b4'', ''#ff7f0e'', ''#2ca02c'', ''#d62728'', ''#9467bd'',
      ''#8c564b'', ''#e377c2'', ''#7f7f7f'', ''#bcbd22'', ''#17becf'']"

text \<open>A segment of the curve; its keys \<^verbatim>\<open>id\<close>, \<^verbatim>\<open>name\<close> and \<^verbatim>\<open>sector\<close> carry the prefix \<open>seg_\<close>.\<close>

record segment =
  seg_id :: "nat option"
  seg_name :: string
  seg_sector :: string
  x1_plot :: real
  x2_plot :: real
  cost :: real
  abatement :: real
  color :: string

text \<open>
  The x-coordinate that is plotted for a cumulative abatement in tonnes;
  \<open>denom\<close> is \<^verbatim>\<open>Number(activeBaseline.annual_emissions || 0)\<close>.
\<close>

definition plot_x :: "string \<Rightarrow> real \<Rightarrow> real \<Rightarrow> real" where
  "plot_x mode denom x_cap =
     (if mode = ''capacity'' then x_cap else (if denom > 0 then (x_cap / denom) * 100 else 0))"

text \<open>
  The body of \<^verbatim>\<open>sorted.forEach((m, idx) => ...)\<close> on the running \<^verbatim>\<open>cum\<close> and
  \<^verbatim>\<open>segs\<close>. The early \<^verbatim>\<open>return\<close> is taken unless the abatement and the cost are both
  finite and the abatement is positive.
\<close>

definition segment_step :: "string \<Rightarrow> real \<Rightarrow> nat \<times> ranked \<Rightarrow> real \<times> segment list \<Rightarrow> real \<times> segment list" where
  "segment_step mode denom im st =
     (case im of (idx, m) \<Rightarrow> case st of (cum, segs) \<Rightarrow>
        (case (orZero (abatement_tco2 m), orZero (effective_cost m)) of
           (Fin A, Fin C) \<Rightarrow>
             if A \<le> 0 then (cum, segs)
             else
               (let x1_cap = cum; x2_cap = cum + max 0 A
                in (x2_cap,
                    segs @ [\<lparr>seg_id = measure_id m, seg_name = measure_name m,
                             seg_sector = sector m,
                             x1_plot = plot_x mode denom x1_cap,
                             x2_plot = plot_x mode denom x2_cap,
                             cost = C, abatement = A,
                             color = PALETTE ! (idx mod length PALETTE)\<rparr>]))
         | _ \<Rightarrow> (cum, segs)))"

definition segments :: "string \<Rightarrow> real \<Rightarrow> ranked list \<Rightarrow> segment list" where
  "segments mode denom ranked_ms =
     snd (fold (segment_step mode denom) (enumerate 0 ranked_ms) (0, []))"

definition totalX :: "string \<Rightarrow> real \<Rightarrow> ranked list \<Rightarrow> real" where
  "totalX mode denom ranked_ms =
     (let segs = segments mode denom ranked_ms
      in if segs \<noteq> [] then x2_plot (last segs) else 0)"

section \<open>Properties of the array helpers\<close>

lemma findIndex_from_none:
  "(\<forall>x\<in>set xs. \<not> P x) \<Longrightarrow> findIndex_from P xs i = -1"
  by (induction xs arbitrary: i) auto

lemma findIndex_from_first:
  "\<exists>x\<in>set xs. P x \<Longrightarrow>
   \<exists>k<length xs. findIndex_from P xs i = int (i + k) \<and> P (xs ! k) \<and> (\<forall>j<k. \<not> P (xs ! j))"
proof (induction xs arbitrary: i)
  case Nil
  then show ?case by simp
next
  case (Cons x xs)
  show ?case
  proof (cases "P x")
    case True
    then have "findIndex_from P (x # xs) i = int (i + 0) \<and> P ((x # xs) ! 0)
        \<and> (\<forall>j<0. \<not> P ((x # xs) ! j))"
      by simp
    then show ?thesis by blast
  next
    case False
    with Cons.prems have "\<exists>y\<in>set xs. P y" by auto
    from Cons.IH [OF this, of "Suc i"] obtain k where k: "k < length xs"
      "findIndex_from P xs (Suc i) = int (Suc i + k)" "P (xs ! k)" "\<forall>j<k. \<not> P (xs ! j)"
      by blast
    have "\<forall>j<Suc k. \<not> P ((x # xs) ! j)"
    proof (intro allI impI)
      fix j assume "j < Suc k"
      then show "\<not> P ((x # xs) ! j)" using False k(4) by (cases j) auto
    qed
    with False k have "Suc k < length (x # xs) \<and> findIndex_from P (x # xs) i = int (i + Suc k)
        \<and> P ((x # xs) ! Suc k) \<and> (\<forall>j<Suc k. \<not> P ((x # xs) ! j))"
      by simp
    then show ?thesis by blast
  qed
qed

lemma findIndex_none: "(\<forall>x\<in>set xs. \<not> P x) \<Longrightarrow> findIndex P xs = -1"
  by (simp add: findIndex_def findIndex_from_none)

lemma findIndex_first:
  "\<exists>x\<in>set xs. P x \<Longrightarrow>
   \<exists>k<length xs. findIndex P xs = int k \<and> P (xs ! k) \<and> (\<forall>j<k. \<not> P (xs ! j))"
  using findIndex_from_first [of xs P 0] by (simp add: findIndex_def)

section \<open>The representative-year policy\<close>

text \<open>
  Claim C1. The representative index is the first index whose \<open>direct_t\<close> is positive.
  When no entry is positive it is the index of 2035 in the year list if 2035 occurs
  there, and half the length of the year list (rounded down) otherwise. For the year
  list 2025, 2030, ..., 2050 and a series whose \<open>direct_t\<close> is zero everywhere it is 2.
  The index that \<open>computed\<close> returns is this index for its own per-year entries and
  its year list 2025, 2030, ..., 2050.
\<close>

theorem repIdx_of_policy:
  "((\<exists>y\<in>set py. direct_t y > 0) \<longrightarrow>
      (\<exists>k<length py. repIdx_of yrs py = int k \<and> direct_t (py ! k) > 0
          \<and> (\<forall>j<k. \<not> direct_t (py ! j) > 0)))
   \<and> ((\<forall>y\<in>set py. \<not> direct_t y > 0) \<and> 2035 \<in> set yrs \<longrightarrow>
      (\<exists>k<length yrs. repIdx_of yrs py = int k \<and> yrs ! k = 2035
          \<and> (\<forall>j<k. yrs ! j \<noteq> 2035)))
   \<and> ((\<forall>y\<in>set py. \<not> direct_t y > 0) \<and> 2035 \<notin> set yrs \<longrightarrow>
      repIdx_of yrs py = int (length yrs div 2))
   \<and> ((\<forall>y\<in>set py. direct_t y = 0) \<longrightarrow>
      repIdx_of [2025, 2030, 2035, 2040, 2045, 2050] py = 2)
   \<and> repIdx (computed w) = repIdx_of (cYEARS (computed w)) (perYear (computed w))
   \<and> cYEARS (computed w) = [2025, 2030, 2035, 2040, 2045, 2050]"
proof (intro conjI impI)
  show "repIdx (computed w) = repIdx_of (cYEARS (computed w)) (perYear (computed w))"
    by (simp add: computed_def Let_def)
  show "cYEARS (computed w) = [2025, 2030, 2035, 2040, 2045, 2050]"
    by (simp add: computed_def Let_def YEARS_def)
next
  assume "\<exists>y\<in>set py. direct_t y > 0"
  from findIndex_first [of py "\<lambda>y. direct_t y > 0", OF this]
  obtain k where k: "k < length py" "findIndex (\<lambda>y. direct_t y > 0) py = int k"
    "direct_t (py ! k) > 0" "\<forall>j<k. \<not> direct_t (py ! j) > 0"
    by blast
  then have "repIdx_of yrs py = int k" by (simp add: repIdx_of_def)
  with k show "\<exists>k<length py. repIdx_of yrs py = int k \<and> direct_t (py ! k) > 0
      \<and> (\<forall>j<k. \<not> direct_t (py ! j) > 0)"
    by blast
next
  assume a: "(\<forall>y\<in>set py. \<not> direct_t y > 0) \<and> 2035 \<in> set yrs"
  then have none: "findIndex (\<lambda>y. direct_t y > 0) py = -1"
    by (simp add: findIndex_none)
  from a have "\<exists>x\<in>set yrs. x = 2035" by simp
  from findIndex_first [of yrs "\<lambda>x. x = 2035", OF this]
  obtain k where k: "k < length yrs" "indexOf yrs 2035 = int k" "yrs ! k = 2035"
    "\<forall>j<k. yrs ! j \<noteq> 2035"
    by (auto simp: indexOf_def)
  then have "repIdx_of yrs py = int k" using none by (simp add: repIdx_of_def)
  with k show "\<exists>k<length yrs. repIdx_of yrs py = int k \<and> yrs ! k = 2035
      \<and> (\<forall>j<k. yrs ! j \<noteq> 2035)"
    by blast
next
  assume a: "(\<forall>y\<in>set py. \<not> direct_t y > 0) \<and> 2035 \<notin> set yrs"
  then have none: "findIndex (\<lambda>y. direct_t y > 0) py = -1"
    by (simp add: findIndex_none)
  from a have "\<forall>x\<in>set yrs. \<not> x = 2035" by auto
  then have "indexOf yrs 2035 = -1"
    unfolding indexOf_def by (rule findIndex_none)
  with none show "repIdx_of yrs py = int (length yrs div 2)"
    by (simp add: repIdx_of_def)
next
  assume "\<forall>y\<in>set py. direct_t y = 0"
  then have "findIndex (\<lambda>y. direct_t y > 0) py = -1"
    by (simp add: findIndex_none)
  then show "repIdx_of [2025, 2030, 2035, 2040, 2045, 2050] py = 2"
    by (simp add: repIdx_of_def indexOf_def findIndex_def)
qed

theorem repIdx_of_policy_witness:
  "(\<exists>y\<in>set [rep_default\<lparr>direct_t := - 1\<rparr>, rep_default\<lparr>direct_t := 4\<rparr>, rep_default\<lparr>direct_t := 2\<rparr>]. direct_t y > 0)
   \<and> repIdx_of [2025, 2030, 2035] [rep_default\<lparr>direct_t := - 1\<rparr>, rep_default\<lparr>direct_t := 4\<rparr>, rep_default\<lparr>direct_t := 2\<rparr>] = 1
   \<and> \<not> direct_t (rep_default\<lparr>direct_t := - 1\<rparr>) > 0 \<and> 2035 \<in> set [2030, 2035, 2040 :: int]
   \<and> repIdx_of [2030, 2035, 2040] [rep_default\<lparr>direct_t := - 1\<rparr>] = 1
   \<and> 2035 \<notin> set [2030, 2040, 2045, 2050, 2055 :: int]
   \<and> repIdx_of [2030, 2040, 2045, 2050, 2055] [rep_default\<lparr>direct_t := - 1\<rparr>] = 2
   \<and> direct_t rep_default = 0
   \<and> repIdx_of [2025, 2030, 2035, 2040, 2045, 2050] (replicate 6 rep_default) = 2"
  using repIdx_of_policy [of "[rep_default\<lparr>direct_t := - 1\<rparr>, rep_default\<lparr>direct_t := 4\<rparr>, rep_default\<lparr>direct_t := 2\<rparr>]" "[2025, 2030, 2035]"]
    repIdx_of_policy [of "[rep_default\<lparr>direct_t := - 1\<rparr>]" "[2030, 2035, 2040]"]
    repIdx_of_policy [of "[rep_default\<lparr>direct_t := - 1\<rparr>]" "[2030, 2040, 2045, 2050, 2055]"]
    repIdx_of_policy [of "replicate 6 rep_default" "[]"]
  by (simp add: rep_default_def repIdx_of_def findIndex_def indexOf_def)

section \<open>Cost normalisation and ranking: properties\<close>

lemma cmp_le_total: "cmp_le x y \<or> cmp_le y x"
  by (cases "effective_cost x"; cases "effective_cost y") (auto simp: cmp_le_def js_sub_def)

lemma cmp_le_trans: "cmp_le x y \<Longrightarrow> cmp_le y z \<Longrightarrow> cmp_le x z"
  by (cases "effective_cost x"; cases "effective_cost y"; cases "effective_cost z")
    (auto simp: cmp_le_def js_sub_def)

lemma set_insort_by: "set (insort_by le x xs) = insert x (set xs)"
  by (induction xs) auto

lemma sorted_wrt_insort_by:
  assumes total: "\<And>u v. le u v \<or> le v u" and trans: "\<And>u v z. le u v \<Longrightarrow> le v z \<Longrightarrow> le u z"
  shows "sorted_wrt le xs \<Longrightarrow> sorted_wrt le (insort_by le x xs)"
proof (induction xs)
  case Nil
  then show ?case by simp
next
  case (Cons y ys)
  show ?case
  proof (cases "le x y")
    case True
    then have "\<forall>z\<in>set ys. le x z" using Cons.prems trans by auto
    with True Cons.prems show ?thesis by simp
  next
    case False
    then have "le y x" using total by blast
    with False Cons show ?thesis by (auto simp: set_insort_by)
  qed
qed

lemma sorted_wrt_sort_by:
  assumes total: "\<And>u v. le u v \<or> le v u" and trans: "\<And>u v z. le u v \<Longrightarrow> le v z \<Longrightarrow> le u z"
  shows "sorted_wrt le (sort_by le xs)"
  unfolding sort_by_def
  by (induction xs) (simp_all add: sorted_wrt_insort_by [OF total trans])

lemma set_sort_by: "set (sort_by le xs) = set xs"
  unfolding sort_by_def by (induction xs) (simp_all add: set_insort_by)

lemma effective_cost_with: "effective_cost (with_effective_cost cp m) = effective_cost_of cp m"
  by (simp add: with_effective_cost_def measure.extend_def)

text \<open>
  Claim C3. For finite numbers, the effective cost of a measure whose details say that
  the saved cost includes the carbon price is the saved cost minus the difference of the
  current carbon price and the carbon price at save; for any other measure (no details,
  quick details, or the flag not set) it is the saved cost minus the current carbon
  price. A measure saved with the flag at carbon price 500 and cost 100 has effective
  cost -100 at carbon price 700, and one without the flag at cost 100 has effective cost
  50 at carbon price 50. The ranking attaches this value to every measure and sorts by
  it in ascending order.
\<close>

theorem effective_cost_normalisation:
  "(measure_details m = Some (Template d) \<and> saved_cost_includes_carbon_price d
      \<and> cost_per_tco2 m = Fin q \<and> cp = Fin p
      \<longrightarrow> effective_cost_of cp m = Fin (q - (p - carbon_price_at_save d)))
   \<and> ((measure_details m = None \<or> measure_details m = Some Quick
        \<or> (measure_details m = Some (Template d) \<and> \<not> saved_cost_includes_carbon_price d))
      \<and> cost_per_tco2 m = Fin q \<and> cp = Fin p
      \<longrightarrow> effective_cost_of cp m = Fin (q - p))
   \<and> (measure_details m = Some (Template d) \<and> saved_cost_includes_carbon_price d
      \<and> carbon_price_at_save d = 500 \<and> cost_per_tco2 m = Fin 100
      \<longrightarrow> effective_cost_of (Fin 700) m = Fin (- 100))
   \<and> ((measure_details m = None \<or> measure_details m = Some Quick
        \<or> (measure_details m = Some (Template d) \<and> \<not> saved_cost_includes_carbon_price d))
      \<and> cost_per_tco2 m = Fin 100
      \<longrightarrow> effective_cost_of (Fin 50) m = Fin 50)
   \<and> map effective_cost (map (with_effective_cost cp) ms) = map (effective_cost_of cp) ms
   \<and> set (sorted_measures cp ms) = with_effective_cost cp ` set ms
   \<and> sorted_wrt cmp_le (sorted_measures cp ms)
   \<and> (\<forall>x y. effective_cost x = Fin u \<and> effective_cost y = Fin v \<longrightarrow> cmp_le x y = (u \<le> v))"
proof (intro conjI)
  show "sorted_wrt cmp_le (sorted_measures cp ms)"
    unfolding sorted_measures_def
    by (rule sorted_wrt_sort_by) (use cmp_le_total cmp_le_trans in blast)+
  show "set (sorted_measures cp ms) = with_effective_cost cp ` set ms"
    by (simp add: sorted_measures_def set_sort_by)
  show "map effective_cost (map (with_effective_cost cp) ms) = map (effective_cost_of cp) ms"
    by (simp add: effective_cost_with)
qed (auto simp: effective_cost_of_def savedIncludesCP_def cpAtSave_def js_sub_def cmp_le_def
      split: option.splits details.splits)

theorem effective_cost_normalisation_witness:
  "effective_cost_of (Fin 700)
     \<lparr>measure_id = Some 1, measure_name = ''Kiln upgrade'', sector = ''Cement'',
      abatement_tco2 = Fin 10, cost_per_tco2 = Fin 100, selected = True,
      measure_details = Some (Template
        \<lparr>years = [], d_meta = \<lparr>project_name = ''Kiln upgrade'', meta_sector = ''Cement'',
           discount_rate = 1 / 10, project_life_years = 30\<rparr>,
         d_adoption = [],
         drivers = \<lparr>fuel_lines = [], raw_lines = [], transport_lines = [], waste_lines = [],
           electricity_lines = [], other_direct_t = []\<rparr>,
         d_stack = \<lparr>opex_cr = [], savings_cr = [], other_cr = [], capex_upfront_cr = [],
           capex_financed_cr = [], financing_tenure_years = [], interest_rate_pct = []\<rparr>,
         per_year = [], representative_index = 2,
         finance_summary = \<lparr>npvWO = Fin 0, npvW = Fin 0, irrWO = None, irrW = None,
           avgCostWO = 0, avgCostW = 0, sumDirect = 0\<rparr>,
         saved_cost_includes_carbon_price = True, carbon_price_at_save = 500\<rparr>)\<rparr>
     = Fin (- 100)
   \<and> effective_cost_of (Fin 50)
     \<lparr>measure_id = Some 2, measure_name = ''Heat recovery'', sector = ''Cement'',
      abatement_tco2 = Fin 10, cost_per_tco2 = Fin 100, selected = True,
      measure_details = Some Quick\<rparr>
     = Fin 50"
  using effective_cost_normalisation [where m =
     "\<lparr>measure_id = Some 1, measure_name = ''Kiln upgrade'', sector = ''Cement'',
      abatement_tco2 = Fin 10, cost_per_tco2 = Fin 100, selected = True,
      measure_details = Some (Template
        \<lparr>years = [], d_meta = \<lparr>project_name = ''Kiln upgrade'', meta_sector = ''Cement'',
           discount_rate = 1 / 10, project_life_years = 30\<rparr>,
         d_adoption = [],
         drivers = \<lparr>fuel_lines = [], raw_lines = [], transport_lines = [], waste_lines = [],
           electricity_lines = [], other_direct_t = []\<rparr>,
         d_stack = \<lparr>opex_cr = [], savings_cr = [], other_cr = [], capex_upfront_cr = [],
           capex_financed_cr = [], financing_tenure_years = [], interest_rate_pct = []\<rparr>,
         per_year = [], representative_index = 2,
         finance_summary = \<lparr>npvWO = Fin 0, npvW = Fin 0, irrWO = None, irrW = None,
           avgCostWO = 0, avgCostW = 0, sumDirect = 0\<rparr>,
         saved_cost_includes_carbon_price = True, carbon_price_at_save = 500\<rparr>)\<rparr>"
     and d =
       "\<lparr>years = [], d_meta = \<lparr>project_name = ''Kiln upgrade'', meta_sector = ''Cement'',
           discount_rate = 1 / 10, project_life_years = 30\<rparr>,
         d_adoption = [],
         drivers = \<lparr>fuel_lines = [], raw_lines = [], transport_lines = [], waste_lines = [],
           electricity_lines = [], other_direct_t = []\<rparr>,
         d_stack = \<lparr>opex_cr = [], savings_cr = [], other_cr = [], capex_upfront_cr = [],
           capex_financed_cr = [], financing_tenure_years = [], interest_rate_pct = []\<rparr>,
         per_year = [], representative_index = 2,
         finance_summary = \<lparr>npvWO = Fin 0, npvW = Fin 0, irrWO = None, irrW = None,
           avgCostWO = 0, avgCostW = 0, sumDirect = 0\<rparr>,
         saved_cost_includes_carbon_price = True, carbon_price_at_save = 500\<rparr>"
     and q = 100 and cp = "Fin 700" and p = 700]
    effective_cost_normalisation [where m =
     "\<lparr>measure_id = Some 2, measure_name = ''Heat recovery'', sector = ''Cement'',
      abatement_tco2 = Fin 10, cost_per_tco2 = Fin 100, selected = True,
      measure_details = Some Quick\<rparr>" and q = 100 and cp = "Fin 50" and p = 50]
  by simp

section \<open>Emission factors and catalog fallbacks of the driver lines\<close>

lemma elec_t_perYear_entry:
  "elec_t (pieces (perYear_entry w i yr)) =
     (\<Sum>lin\<leftarrow>elecLines w.
        elec_mwh (max 0 (min 1 (num0 (cell_at (adoption w) i)))) i lin
        * elec_effEf (electricity (dataSources w)) lin (nat (max 0 (yr - BASE_YEAR))) i)"
  by (simp add: perYear_entry_def Let_def elec_line_t_def)

lemma find_first_match:
  "(\<forall>x\<in>set pre. \<not> P x) \<Longrightarrow> P r \<Longrightarrow> find P (pre @ r # post) = Some r"
  by (induction pre) simp_all

lemma elec_base_found:
  "(\<forall>x\<in>set pre. state x \<noteq> Some (line_state lin)) \<Longrightarrow> state r = Some (line_state lin)
   \<Longrightarrow> elec_base (pre @ r # post) lin = Some r"
  unfolding elec_base_def
  by (subst find_first_match) simp_all

text \<open>
  Claim C8. For an electricity line and a year index, the emission factor the engine
  uses is the per-year override, verbatim, when that entry is not blank, whatever the
  drift; when it is blank it is the catalog emission factor of the line's state times
  \<open>(1 + efEscPctYr / 100)\<close> to the power of the years since the base year. The catalog
  emission factor of the state is the field \<^verbatim>\<open>ef_tco2_per_mwh\<close> of the first catalog row
  whose \<^verbatim>\<open>state\<close> is the line's (0.710 where that row lacks the field). The
  electricity tonnes of a year are the sum over the lines of the adopted MWh times this
  factor.
\<close>

theorem elec_per_year_override_wins:
  "(cell_at (efOvPerYear lin) i = Some v \<longrightarrow> elec_effEf DS lin ysb i = v)
   \<and> (cell_at (efOvPerYear lin) i = None \<longrightarrow>
        elec_effEf DS lin ysb i
          = getElecEFperMWh (elec_base DS lin) * (1 + efEscPctYr lin / 100) ^ ysb)
   \<and> (cell_at (efOvPerYear lin) i = None
        \<and> (\<forall>x\<in>set pre. state x \<noteq> Some (line_state lin)) \<and> state r = Some (line_state lin) \<longrightarrow>
        elec_base (pre @ r # post) lin = Some r
        \<and> elec_effEf (pre @ r # post) lin ysb i
          = (case ef_tco2_per_mwh r of Some e \<Rightarrow> e | None \<Rightarrow> 710 / 1000)
            * (1 + efEscPctYr lin / 100) ^ ysb)
   \<and> elec_t (pieces (perYear_entry w i yr)) =
        (\<Sum>lin\<leftarrow>elecLines w.
           elec_mwh (max 0 (min 1 (num0 (cell_at (adoption w) i)))) i lin
           * (case cell_at (efOvPerYear lin) i of
                Some v \<Rightarrow> v
              | None \<Rightarrow> getElecEFperMWh (elec_base (electricity (dataSources w)) lin)
                          * (1 + efEscPctYr lin / 100) ^ nat (max 0 (yr - BASE_YEAR))))"
proof (intro conjI impI)
  show "elec_t (pieces (perYear_entry w i yr)) =
        (\<Sum>lin\<leftarrow>elecLines w.
           elec_mwh (max 0 (min 1 (num0 (cell_at (adoption w) i)))) i lin
           * (case cell_at (efOvPerYear lin) i of
                Some v \<Rightarrow> v
              | None \<Rightarrow> getElecEFperMWh (elec_base (electricity (dataSources w)) lin)
                          * (1 + efEscPctYr lin / 100) ^ nat (max 0 (yr - BASE_YEAR))))"
    unfolding elec_t_perYear_entry
    by (rule arg_cong [where f = sum_list], rule map_cong)
      (auto simp: elec_effEf_def hasPerYearOv_def elec_baseEf_def num0_def split: option.splits)
next
  assume h: "cell_at (efOvPerYear lin) i = None
        \<and> (\<forall>x\<in>set pre. state x \<noteq> Some (line_state lin)) \<and> state r = Some (line_state lin)"
  then show b: "elec_base (pre @ r # post) lin = Some r"
    by (simp add: elec_base_found)
  from h show "elec_effEf (pre @ r # post) lin ysb i
          = (case ef_tco2_per_mwh r of Some e \<Rightarrow> e | None \<Rightarrow> 710 / 1000)
            * (1 + efEscPctYr lin / 100) ^ ysb"
    by (simp add: b elec_effEf_def hasPerYearOv_def elec_baseEf_def getElecEFperMWh_def)
qed (simp_all add: elec_effEf_def hasPerYearOv_def elec_baseEf_def num0_def)

theorem elec_per_year_override_wins_witness:
  "cell_at (efOvPerYear \<lparr>priceOv = None, priceEscPctYr = 0, efEscPctYr = 2, line_state = ''India'',
        efOvPerYear = [None, Some (1 / 2)], deltaMWh = [Some 1, Some 2]\<rparr>) 1 = Some (1 / 2)
   \<and> elec_effEf [\<lparr>state = Some ''Goa'', price_per_mwh = Some 300, price_per_mwh_inr = None,
          ef_tco2_per_mwh = Some (3 / 10)\<rparr>,
        \<lparr>state = Some ''India'', price_per_mwh = Some 400, price_per_mwh_inr = None,
          ef_tco2_per_mwh = Some (4 / 5)\<rparr>]
      \<lparr>priceOv = None, priceEscPctYr = 0, efEscPctYr = 2, line_state = ''India'',
        efOvPerYear = [None, Some (1 / 2)], deltaMWh = [Some 1, Some 2]\<rparr> 5 1 = 1 / 2
   \<and> cell_at (efOvPerYear \<lparr>priceOv = None, priceEscPctYr = 0, efEscPctYr = 100, line_state = ''India'',
        efOvPerYear = [None, Some (1 / 2)], deltaMWh = [Some 1, Some 2]\<rparr>) 0 = None
   \<and> state \<lparr>state = Some ''Goa'', price_per_mwh = Some 300, price_per_mwh_inr = None,
          ef_tco2_per_mwh = Some (3 / 10)\<rparr> \<noteq> Some ''India''
   \<and> elec_base [\<lparr>state = Some ''Goa'', price_per_mwh = Some 300, price_per_mwh_inr = None,
          ef_tco2_per_mwh = Some (3 / 10)\<rparr>,
        \<lparr>state = Some ''India'', price_per_mwh = Some 400, price_per_mwh_inr = None,
          ef_tco2_per_mwh = Some (4 / 5)\<rparr>]
      \<lparr>priceOv = None, priceEscPctYr = 0, efEscPctYr = 100, line_state = ''India'',
        efOvPerYear = [None, Some (1 / 2)], deltaMWh = [Some 1, Some 2]\<rparr>
      = Some \<lparr>state = Some ''India'', price_per_mwh = Some 400, price_per_mwh_inr = None,
          ef_tco2_per_mwh = Some (4 / 5)\<rparr>
   \<and> elec_effEf [\<lparr>state = Some ''Goa'', price_per_mwh = Some 300, price_per_mwh_inr = None,
          ef_tco2_per_mwh = Some (3 / 10)\<rparr>,
        \<lparr>state = Some ''India'', price_per_mwh = Some 400, price_per_mwh_inr = None,
          ef_tco2_per_mwh = Some (4 / 5)\<rparr>]
      \<lparr>priceOv = None, priceEscPctYr = 0, efEscPctYr = 100, line_state = ''India'',
        efOvPerYear = [None, Some (1 / 2)], deltaMWh = [Some 1, Some 2]\<rparr> 2 0 = 16 / 5"
  using elec_per_year_override_wins [where lin = "\<lparr>priceOv = None, priceEscPctYr = 0, efEscPctYr = 2, line_state = ''India'',
        efOvPerYear = [None, Some (1 / 2)], deltaMWh = [Some 1, Some 2]\<rparr>" and i = 1 and v = "1 / 2" and ysb = 5
        and DS = "[\<lparr>state = Some ''Goa'', price_per_mwh = Some 300, price_per_mwh_inr = None,
          ef_tco2_per_mwh = Some (3 / 10)\<rparr>,
        \<lparr>state = Some ''India'', price_per_mwh = Some 400, price_per_mwh_inr = None,
          ef_tco2_per_mwh = Some (4 / 5)\<rparr>]", THEN conjunct1]
    elec_per_year_override_wins [where lin = "\<lparr>priceOv = None, priceEscPctYr = 0, efEscPctYr = 100, line_state = ''India'',
        efOvPerYear = [None, Some (1 / 2)], deltaMWh = [Some 1, Some 2]\<rparr>" and i = 0 and ysb = 2
        and pre = "[\<lparr>state = Some ''Goa'', price_per_mwh = Some 300, price_per_mwh_inr = None,
          ef_tco2_per_mwh = Some (3 / 10)\<rparr>]"
        and r = "\<lparr>state = Some ''India'', price_per_mwh = Some 400, price_per_mwh_inr = None,
          ef_tco2_per_mwh = Some (4 / 5)\<rparr>" and post = "[]", THEN conjunct2, THEN conjunct2, THEN conjunct1]
  by (simp add: cell_at_def)

text \<open>
  Claim C10. A fuel, raw, transport or waste line whose name is in no row of its catalog
  and which has no override has base price 0 and base emission factor 0, so it adds
  nothing to the tonnes or to the driver cost of any year (a line whose name is found
  takes the price and the emission factor of the first row of that name). An electricity
  line whose state is in no row of the catalog takes the first row of the catalog: its
  base price and base emission factor are the fields of that row, and these are what the
  line adds to the tonnes and to the driver cost. With an empty catalog, or where the
  row lacks the field, the price is 500 per MWh and the emission factor 0.710 tonnes
  per MWh.
\<close>

theorem catalog_fallback_asymmetric:
  "((\<forall>x\<in>set FS. name x \<noteq> Some (line_name dl)) \<and> priceOv dl = None \<and> efOv dl = None \<longrightarrow>
      frtw_base FS dl = None \<and> frtw_basePrice FS dl = 0 \<and> frtw_baseEf FS dl = 0
      \<and> frtw_t FS adopt ysb i dl = 0 \<and> frtw_cr FS adopt ysb i dl = 0)
   \<and> ((\<forall>x\<in>set pre. name x \<noteq> Some (line_name dl)) \<and> name fr = Some (line_name dl)
        \<and> priceOv dl = None \<and> efOv dl = None \<longrightarrow>
      frtw_basePrice (pre @ fr # post) dl
        = (case price fr of Some p \<Rightarrow> p
           | None \<Rightarrow> (case price_per_unit_inr fr of Some p \<Rightarrow> p | None \<Rightarrow> 0))
      \<and> frtw_baseEf (pre @ fr # post) dl
        = (case ef_tco2_per_unit fr of Some e \<Rightarrow> e
           | None \<Rightarrow> (case ef_t_per_unit fr of Some e \<Rightarrow> e | None \<Rightarrow> 0)))
   \<and> ((\<forall>x\<in>set (r # rest). state x \<noteq> Some (line_state el)) \<longrightarrow>
      elec_base (r # rest) el = Some r
      \<and> elec_baseEf (r # rest) el
          = (case ef_tco2_per_mwh r of Some e \<Rightarrow> e | None \<Rightarrow> 710 / 1000)
      \<and> (cell_at (efOvPerYear el) i = None \<longrightarrow>
           elec_line_t (r # rest) adopt ysb i el
             = elec_mwh adopt i el
               * ((case ef_tco2_per_mwh r of Some e \<Rightarrow> e | None \<Rightarrow> 710 / 1000)
                  * (1 + efEscPctYr el / 100) ^ ysb))
      \<and> (priceOv el = None \<longrightarrow>
           elec_basePrice (r # rest) el
             = (case price_per_mwh r of Some p \<Rightarrow> p
                | None \<Rightarrow> (case price_per_mwh_inr r of Some p \<Rightarrow> p | None \<Rightarrow> 500))
           \<and> elec_line_cr (r # rest) adopt ysb i el
             = elec_mwh adopt i el
               * ((case price_per_mwh r of Some p \<Rightarrow> p
                   | None \<Rightarrow> (case price_per_mwh_inr r of Some p \<Rightarrow> p | None \<Rightarrow> 500))
                  * (1 + priceEscPctYr el / 100) ^ ysb) / 10000000))
   \<and> (elec_base [] el = None \<and> elec_baseEf [] el = 710 / 1000
      \<and> (cell_at (efOvPerYear el) i = None \<longrightarrow>
           elec_line_t [] adopt ysb i el
             = elec_mwh adopt i el * (710 / 1000 * (1 + efEscPctYr el / 100) ^ ysb))
      \<and> (priceOv el = None \<longrightarrow> elec_basePrice [] el = 500
           \<and> elec_line_cr [] adopt ysb i el
             = elec_mwh adopt i el * (500 * (1 + priceEscPctYr el / 100) ^ ysb) / 10000000))
   \<and> (price_per_mwh r = None \<and> price_per_mwh_inr r = None \<longrightarrow> getElecPricePerMWh (Some r) = 500)
   \<and> (ef_tco2_per_mwh r = None \<longrightarrow> getElecEFperMWh (Some r) = 710 / 1000)"
proof -
  have nf: "find P xs = None" if "\<forall>x\<in>set xs. \<not> P x" for P :: "'a \<Rightarrow> bool" and xs
    using that by (simp add: find_None_iff)
  have a: "(\<forall>x\<in>set FS. name x \<noteq> Some (line_name dl)) \<Longrightarrow> frtw_base FS dl = None"
    unfolding frtw_base_def by (rule nf) simp
  have b: "(\<forall>x\<in>set (r # rest). state x \<noteq> Some (line_state el)) \<Longrightarrow>
      elec_base (r # rest) el = Some r"
    unfolding elec_base_def by (subst nf) simp_all
  have c: "(\<forall>x\<in>set pre. name x \<noteq> Some (line_name dl)) \<Longrightarrow> name fr = Some (line_name dl)
      \<Longrightarrow> frtw_base (pre @ fr # post) dl = Some fr"
    unfolding frtw_base_def by (subst find_first_match) simp_all
  have e: "elec_base [] el = None" by (simp add: elec_base_def)
  have p1: "(\<forall>x\<in>set FS. name x \<noteq> Some (line_name dl)) \<and> priceOv dl = None \<and> efOv dl = None \<longrightarrow>
      frtw_base FS dl = None \<and> frtw_basePrice FS dl = 0 \<and> frtw_baseEf FS dl = 0
      \<and> frtw_t FS adopt ysb i dl = 0 \<and> frtw_cr FS adopt ysb i dl = 0"
    by (simp add: a frtw_basePrice_def frtw_baseEf_def frtw_t_def frtw_cr_def frtw_effEf_def
        frtw_effPrice_def getUnitPrice_def getEFperUnit_def)
  have p2: "(\<forall>x\<in>set pre. name x \<noteq> Some (line_name dl)) \<and> name fr = Some (line_name dl)
        \<and> priceOv dl = None \<and> efOv dl = None \<longrightarrow>
      frtw_basePrice (pre @ fr # post) dl
        = (case price fr of Some p \<Rightarrow> p
           | None \<Rightarrow> (case price_per_unit_inr fr of Some p \<Rightarrow> p | None \<Rightarrow> 0))
      \<and> frtw_baseEf (pre @ fr # post) dl
        = (case ef_tco2_per_unit fr of Some e \<Rightarrow> e
           | None \<Rightarrow> (case ef_t_per_unit fr of Some e \<Rightarrow> e | None \<Rightarrow> 0))"
    by (simp add: c frtw_basePrice_def frtw_baseEf_def getUnitPrice_def getEFperUnit_def)
  have p3: "(\<forall>x\<in>set (r # rest). state x \<noteq> Some (line_state el)) \<longrightarrow>
      elec_base (r # rest) el = Some r
      \<and> elec_baseEf (r # rest) el
          = (case ef_tco2_per_mwh r of Some e \<Rightarrow> e | None \<Rightarrow> 710 / 1000)
      \<and> (cell_at (efOvPerYear el) i = None \<longrightarrow>
           elec_line_t (r # rest) adopt ysb i el
             = elec_mwh adopt i el
               * ((case ef_tco2_per_mwh r of Some e \<Rightarrow> e | None \<Rightarrow> 710 / 1000)
                  * (1 + efEscPctYr el / 100) ^ ysb))
      \<and> (priceOv el = None \<longrightarrow>
           elec_basePrice (r # rest) el
             = (case price_per_mwh r of Some p \<Rightarrow> p
                | None \<Rightarrow> (case price_per_mwh_inr r of Some p \<Rightarrow> p | None \<Rightarrow> 500))
           \<and> elec_line_cr (r # rest) adopt ysb i el
             = elec_mwh adopt i el
               * ((case price_per_mwh r of Some p \<Rightarrow> p
                   | None \<Rightarrow> (case price_per_mwh_inr r of Some p \<Rightarrow> p | None \<Rightarrow> 500))
                  * (1 + priceEscPctYr el / 100) ^ ysb) / 10000000)"
    using b
    by (simp add: elec_baseEf_def elec_basePrice_def elec_line_t_def elec_line_cr_def
        elec_effEf_def elec_effPrice_def hasPerYearOv_def getElecPricePerMWh_def
        getElecEFperMWh_def)
  have p4: "elec_base [] el = None \<and> elec_baseEf [] el = 710 / 1000
      \<and> (cell_at (efOvPerYear el) i = None \<longrightarrow>
           elec_line_t [] adopt ysb i el
             = elec_mwh adopt i el * (710 / 1000 * (1 + efEscPctYr el / 100) ^ ysb))
      \<and> (priceOv el = None \<longrightarrow> elec_basePrice [] el = 500
           \<and> elec_line_cr [] adopt ysb i el
             = elec_mwh adopt i el * (500 * (1 + priceEscPctYr el / 100) ^ ysb) / 10000000)"
    by (simp add: e elec_baseEf_def elec_basePrice_def elec_line_t_def elec_line_cr_def
        elec_effEf_def elec_effPrice_def hasPerYearOv_def getElecPricePerMWh_def
        getElecEFperMWh_def)
  have p5: "price_per_mwh r = None \<and> price_per_mwh_inr r = None \<longrightarrow> getElecPricePerMWh (Some r) = 500"
    by (simp add: getElecPricePerMWh_def)
  have p6: "ef_tco2_per_mwh r = None \<longrightarrow> getElecEFperMWh (Some r) = 710 / 1000"
    by (simp add: getElecEFperMWh_def)
  from p1 p2 p3 p4 p5 p6 show ?thesis by blast
qed

theorem catalog_fallback_asymmetric_witness:
  "name \<lparr>name = Some ''Coal'', price = Some 100, price_per_unit_inr = None,
         ef_tco2_per_unit = Some 2, ef_t_per_unit = None\<rparr> \<noteq> Some ''Gas''
   \<and> frtw_basePrice [\<lparr>name = Some ''Coal'', price = Some 100, price_per_unit_inr = None,
         ef_tco2_per_unit = Some 2, ef_t_per_unit = None\<rparr>]
       \<lparr>priceOv = None, priceEscPctYr = 3, efEscPctYr = 1, line_name = ''Gas'', efOv = None,
        delta = [Some 5]\<rparr> = 0
   \<and> frtw_baseEf [\<lparr>name = Some ''Coal'', price = Some 100, price_per_unit_inr = None,
         ef_tco2_per_unit = Some 2, ef_t_per_unit = None\<rparr>]
       \<lparr>priceOv = None, priceEscPctYr = 3, efEscPctYr = 1, line_name = ''Gas'', efOv = None,
        delta = [Some 5]\<rparr> = 0
   \<and> frtw_t [\<lparr>name = Some ''Coal'', price = Some 100, price_per_unit_inr = None,
         ef_tco2_per_unit = Some 2, ef_t_per_unit = None\<rparr>] 1 5 0
       \<lparr>priceOv = None, priceEscPctYr = 3, efEscPctYr = 1, line_name = ''Gas'', efOv = None,
        delta = [Some 5]\<rparr> = 0
   \<and> frtw_cr [\<lparr>name = Some ''Coal'', price = Some 100, price_per_unit_inr = None,
         ef_tco2_per_unit = Some 2, ef_t_per_unit = None\<rparr>] 1 5 0
       \<lparr>priceOv = None, priceEscPctYr = 3, efEscPctYr = 1, line_name = ''Gas'', efOv = None,
        delta = [Some 5]\<rparr> = 0
   \<and> state \<lparr>state = Some ''India'', price_per_mwh = None, price_per_mwh_inr = Some 400,
         ef_tco2_per_mwh = Some (4 / 5)\<rparr> \<noteq> Some ''Goa''
   \<and> state \<lparr>state = Some ''Kerala'', price_per_mwh = Some 300, price_per_mwh_inr = None,
         ef_tco2_per_mwh = Some (1 / 2)\<rparr> \<noteq> Some ''Goa''
   \<and> elec_base [\<lparr>state = Some ''India'', price_per_mwh = None, price_per_mwh_inr = Some 400,
         ef_tco2_per_mwh = Some (4 / 5)\<rparr>,
       \<lparr>state = Some ''Kerala'', price_per_mwh = Some 300, price_per_mwh_inr = None,
         ef_tco2_per_mwh = Some (1 / 2)\<rparr>]
       \<lparr>priceOv = None, priceEscPctYr = 0, efEscPctYr = 0, line_state = ''Goa'',
        efOvPerYear = [], deltaMWh = [Some 10]\<rparr>
     = Some \<lparr>state = Some ''India'', price_per_mwh = None, price_per_mwh_inr = Some 400,
         ef_tco2_per_mwh = Some (4 / 5)\<rparr>
   \<and> elec_basePrice [\<lparr>state = Some ''India'', price_per_mwh = None, price_per_mwh_inr = Some 400,
         ef_tco2_per_mwh = Some (4 / 5)\<rparr>,
       \<lparr>state = Some ''Kerala'', price_per_mwh = Some 300, price_per_mwh_inr = None,
         ef_tco2_per_mwh = Some (1 / 2)\<rparr>]
       \<lparr>priceOv = None, priceEscPctYr = 0, efEscPctYr = 0, line_state = ''Goa'',
        efOvPerYear = [], deltaMWh = [Some 10]\<rparr> = 400
   \<and> elec_baseEf [\<lparr>state = Some ''India'', price_per_mwh = None, price_per_mwh_inr = Some 400,
         ef_tco2_per_mwh = Some (4 / 5)\<rparr>,
       \<lparr>state = Some ''Kerala'', price_per_mwh = Some 300, price_per_mwh_inr = None,
         ef_tco2_per_mwh = Some (1 / 2)\<rparr>]
       \<lparr>priceOv = None, priceEscPctYr = 0, efEscPctYr = 0, line_state = ''Goa'',
        efOvPerYear = [], deltaMWh = [Some 10]\<rparr> = 4 / 5
   \<and> elec_line_t [\<lparr>state = Some ''India'', price_per_mwh = None, price_per_mwh_inr = Some 400,
         ef_tco2_per_mwh = Some (4 / 5)\<rparr>,
       \<lparr>state = Some ''Kerala'', price_per_mwh = Some 300, price_per_mwh_inr = None,
         ef_tco2_per_mwh = Some (1 / 2)\<rparr>] 1 5 0
       \<lparr>priceOv = None, priceEscPctYr = 0, efEscPctYr = 0, line_state = ''Goa'',
        efOvPerYear = [], deltaMWh = [Some 10]\<rparr> = 8
   \<and> elec_line_cr [\<lparr>state = Some ''India'', price_per_mwh = None, price_per_mwh_inr = Some 400,
         ef_tco2_per_mwh = Some (4 / 5)\<rparr>,
       \<lparr>state = Some ''Kerala'', price_per_mwh = Some 300, price_per_mwh_inr = None,
         ef_tco2_per_mwh = Some (1 / 2)\<rparr>] 1 5 0
       \<lparr>priceOv = None, priceEscPctYr = 0, efEscPctYr = 0, line_state = ''Goa'',
        efOvPerYear = [], deltaMWh = [Some 10]\<rparr> = 1 / 2500
   \<and> elec_basePrice [\<lparr>state = Some ''India'', price_per_mwh = None, price_per_mwh_inr = None,
         ef_tco2_per_mwh = None\<rparr>]
       \<lparr>priceOv = None, priceEscPctYr = 0, efEscPctYr = 0, line_state = ''Goa'',
        efOvPerYear = [], deltaMWh = [Some 10]\<rparr> = 500
   \<and> elec_baseEf [\<lparr>state = Some ''India'', price_per_mwh = None, price_per_mwh_inr = None,
         ef_tco2_per_mwh = None\<rparr>]
       \<lparr>priceOv = None, priceEscPctYr = 0, efEscPctYr = 0, line_state = ''Goa'',
        efOvPerYear = [], deltaMWh = [Some 10]\<rparr> = 710 / 1000
   \<and> elec_basePrice []
       \<lparr>priceOv = None, priceEscPctYr = 0, efEscPctYr = 0, line_state = ''Goa'',
        efOvPerYear = [], deltaMWh = [Some 10]\<rparr> = 500
   \<and> elec_baseEf []
       \<lparr>priceOv = None, priceEscPctYr = 0, efEscPctYr = 0, line_state = ''Goa'',
        efOvPerYear = [], deltaMWh = [Some 10]\<rparr> = 710 / 1000"
  using catalog_fallback_asymmetric [where FS = "[\<lparr>name = Some ''Coal'', price = Some 100, price_per_unit_inr = None,
         ef_tco2_per_unit = Some 2, ef_t_per_unit = None\<rparr>]"
      and dl = "\<lparr>priceOv = None, priceEscPctYr = 3, efEscPctYr = 1, line_name = ''Gas'', efOv = None,
        delta = [Some 5]\<rparr>" and adopt = 1 and ysb = 5 and i = 0
      and r = "\<lparr>state = Some ''India'', price_per_mwh = None, price_per_mwh_inr = Some 400,
         ef_tco2_per_mwh = Some (4 / 5)\<rparr>"
      and rest = "[\<lparr>state = Some ''Kerala'', price_per_mwh = Some 300, price_per_mwh_inr = None,
         ef_tco2_per_mwh = Some (1 / 2)\<rparr>]"
      and el = "\<lparr>priceOv = None, priceEscPctYr = 0, efEscPctYr = 0, line_state = ''Goa'',
        efOvPerYear = [], deltaMWh = [Some 10]\<rparr>"]
    catalog_fallback_asymmetric [where r = "\<lparr>state = Some ''India'', price_per_mwh = None, price_per_mwh_inr = None,
         ef_tco2_per_mwh = None\<rparr>" and rest = "[]"
      and el = "\<lparr>priceOv = None, priceEscPctYr = 0, efEscPctYr = 0, line_state = ''Goa'',
        efOvPerYear = [], deltaMWh = [Some 10]\<rparr>", THEN conjunct2, THEN conjunct2, THEN conjunct1]
  by (simp add: cell_at_def elec_mwh_def num0_def)

section \<open>Saving a measure from the template tab\<close>

lemma length_perYear_of: "length (perYear_of w) = 6"
  by (simp add: perYear_of_def YEARS_def)

lemma repIdx_of_range:
  "length py = 6 \<Longrightarrow> 0 \<le> repIdx_of YEARS py \<and> nat (repIdx_of YEARS py) < length py"
proof (cases "\<exists>y\<in>set py. direct_t y > 0")
  case True
  assume "length py = 6"
  from findIndex_first [of py "\<lambda>y. direct_t y > 0", OF True]
  obtain k where "k < length py" "findIndex (\<lambda>y. direct_t y > 0) py = int k" by blast
  then show ?thesis by (simp add: repIdx_of_def)
next
  case False
  assume "length py = 6"
  moreover from False have "findIndex (\<lambda>y. direct_t y > 0) py = -1"
    by (simp add: findIndex_none)
  ultimately show ?thesis
    by (simp add: repIdx_of_def YEARS_def indexOf_def findIndex_def)
qed

lemma rep_computed:
  "rep (computed w) = perYear_of w ! nat (repIdx_of YEARS (perYear_of w))"
  using repIdx_of_range [OF length_perYear_of, of w]
  by (simp add: computed_def Let_def at_or_def)

text \<open>
  Claim C2, as amended. Saving from the template tab with the user's consent always
  gives a measure. A saved measure has template details whose \<open>per_year\<close> and
  \<open>representative_index\<close> are those of \<open>computed\<close>, the index follows the
  representative-year policy and lies within \<open>per_year\<close>; the saved abatement is the
  \<open>direct_t\<close> of the representative entry, raised to 0 when that is negative, and the
  saved cost is the implied cost per tonne of that entry, with the carbon price when the
  save flag is set and without it otherwise.
\<close>

theorem saveTemplate_representative:
  "saveTemplate w True \<noteq> None
   \<and> (saveTemplate w ok = Some m \<longrightarrow>
      (\<exists>d. measure_details m = Some (Template d)
         \<and> per_year d = perYear (computed w)
         \<and> representative_index d = repIdx_of YEARS (per_year d)
         \<and> saved_cost_includes_carbon_price d = applyCarbonPriceInSave w
         \<and> 0 \<le> representative_index d \<and> nat (representative_index d) < length (per_year d)
         \<and> abatement_tco2 m
             = Fin (max 0 (direct_t (per_year d ! nat (representative_index d))))
         \<and> (0 \<le> direct_t (per_year d ! nat (representative_index d)) \<longrightarrow>
              abatement_tco2 m = Fin (direct_t (per_year d ! nat (representative_index d))))
         \<and> cost_per_tco2 m
             = Fin (if saved_cost_includes_carbon_price d
                    then implied_cost_per_t_w (per_year d ! nat (representative_index d))
                    else implied_cost_per_t_wo (per_year d ! nat (representative_index d)))))"
proof (intro conjI impI)
  show "saveTemplate w True \<noteq> None" by (simp add: saveTemplate_def Let_def)
next
  assume s: "saveTemplate w ok = Some m"
  let ?py = "perYear_of w"
  let ?k = "nat (repIdx_of YEARS ?py)"
  have r: "0 \<le> repIdx_of YEARS ?py" "?k < length ?py"
    using repIdx_of_range [OF length_perYear_of, of w] by simp_all
  have c: "perYear (computed w) = ?py" "repIdx (computed w) = repIdx_of YEARS ?py"
    by (simp_all add: computed_def Let_def)
  from s obtain d where d: "measure_details m = Some (Template d)"
    "per_year d = perYear (computed w)" "representative_index d = repIdx (computed w)"
    "saved_cost_includes_carbon_price d = applyCarbonPriceInSave w"
    "abatement_tco2 m = Fin (max 0 (direct_t (rep (computed w))))"
    "cost_per_tco2 m = Fin (if applyCarbonPriceInSave w then implied_cost_per_t_w (rep (computed w))
        else implied_cost_per_t_wo (rep (computed w)))"
    by (auto simp: saveTemplate_def Let_def split: if_splits)
  show "\<exists>d. measure_details m = Some (Template d)
         \<and> per_year d = perYear (computed w)
         \<and> representative_index d = repIdx_of YEARS (per_year d)
         \<and> saved_cost_includes_carbon_price d = applyCarbonPriceInSave w
         \<and> 0 \<le> representative_index d \<and> nat (representative_index d) < length (per_year d)
         \<and> abatement_tco2 m
             = Fin (max 0 (direct_t (per_year d ! nat (representative_index d))))
         \<and> (0 \<le> direct_t (per_year d ! nat (representative_index d)) \<longrightarrow>
              abatement_tco2 m = Fin (direct_t (per_year d ! nat (representative_index d))))
         \<and> cost_per_tco2 m
             = Fin (if saved_cost_includes_carbon_price d
                    then implied_cost_per_t_w (per_year d ! nat (representative_index d))
                    else implied_cost_per_t_wo (per_year d ! nat (representative_index d)))"
    using d r c by (intro exI [of _ d]) (simp add: rep_computed)
qed


lemma findIndex_from_map: "findIndex_from P (map f xs) i = findIndex_from (\<lambda>x. P (f x)) xs i"
  by (induction xs arbitrary: i) auto

lemma repIdx_of_direct:
  "repIdx_of yrs py =
     (let r = findIndex (\<lambda>t. t > 0) (map direct_t py)
      in if r < 0 then (if indexOf yrs 2035 \<ge> 0 then indexOf yrs 2035 else int (length yrs div 2))
         else r)"
  by (simp add: repIdx_of_def findIndex_def findIndex_from_map)

lemma direct_t_perYear_entry:
  "direct_t (perYear_entry w i yr) =
     (let adopt = max 0 (min 1 (num0 (cell_at (adoption w) i)));
          ysb = nat (max 0 (yr - BASE_YEAR));
          DS = dataSources w
      in (\<Sum>lin\<leftarrow>fuelLines w. frtw_t (fuels DS) adopt ysb i lin)
       + (\<Sum>lin\<leftarrow>rawLines w. frtw_t (raw DS) adopt ysb i lin)
       + (\<Sum>lin\<leftarrow>transLines w. frtw_t (transport DS) adopt ysb i lin)
       + (\<Sum>lin\<leftarrow>wasteLines w. frtw_t (waste DS) adopt ysb i lin)
       + (\<Sum>lin\<leftarrow>elecLines w. elec_line_t (electricity DS) adopt ysb i lin)
       + adopt * num0 (cell_at (otherDirectT w) i))"
  by (simp add: perYear_entry_def Let_def)

lemma perYear_of_entries:
  "perYear_of w =
     [perYear_entry w 0 2025, perYear_entry w 1 2030, perYear_entry w 2 2035,
      perYear_entry w 3 2040, perYear_entry w 4 2045, perYear_entry w 5 2050]"
proof -
  have "enumerate 0 YEARS = [(0, 2025), (1, 2030), (2, 2035), (3, 2040), (4, 2045), (5, 2050)]"
    by (simp add: YEARS_def eval_nat_numeral)
  then show ?thesis by (simp add: perYear_of_def)
qed

lemma map_direct_t_perYear_of:
  "map direct_t (perYear_of w) =
     [direct_t (perYear_entry w 0 2025), direct_t (perYear_entry w 1 2030),
      direct_t (perYear_entry w 2 2035), direct_t (perYear_entry w 3 2040),
      direct_t (perYear_entry w 4 2045), direct_t (perYear_entry w 5 2050)]"
  by (simp add: perYear_of_entries)

lemma frtw_t_zero_delta: "cell_at (delta lin) i = Some 0 \<Longrightarrow> frtw_t DS adopt ysb i lin = 0"
  by (simp add: frtw_t_def frtw_qty_def num0_def)

lemma elec_line_t_zero_delta: "cell_at (deltaMWh lin) i = Some 0 \<Longrightarrow> elec_line_t DS adopt ysb i lin = 0"
  by (simp add: elec_line_t_def elec_mwh_def num0_def)

lemma cex_direct:
  "map direct_t (perYear_of ((initial_wizard [] 0 empty_catalogs)
      \<lparr>otherDirectT := [Some 0, Some 0, Some (- 5), Some 0, Some 0, Some 0]\<rparr>))
   = [0, 0, - 2, 0, 0, 0]"
  unfolding map_direct_t_perYear_of direct_t_perYear_entry
  by (simp add: initial_wizard_def initial_driver_line_def initial_elec_line_def
      makeZeros_def YEARS_def cell_at_def frtw_t_zero_delta elec_line_t_zero_delta
      num0_def enumerate_eq_zip upt_rec)

text \<open>
  The claim C2 as stated fails where the representative entry has a negative
  \<open>direct_t\<close>: with an other-direct reduction of -5 in 2035 and nothing else entered,
  the representative index is 2, the entry's \<open>direct_t\<close> is -2 and the saved abatement
  is 0.
\<close>

theorem saveTemplate_abatement_counterexample:
  "map_option abatement_tco2 (saveTemplate ((initial_wizard [] 0 empty_catalogs)
      \<lparr>otherDirectT := [Some 0, Some 0, Some (- 5), Some 0, Some 0, Some 0]\<rparr>) True) = Some (Fin 0)
   \<and> repIdx (computed ((initial_wizard [] 0 empty_catalogs)
      \<lparr>otherDirectT := [Some 0, Some 0, Some (- 5), Some 0, Some 0, Some 0]\<rparr>)) = 2
   \<and> direct_t (perYear (computed ((initial_wizard [] 0 empty_catalogs)
      \<lparr>otherDirectT := [Some 0, Some 0, Some (- 5), Some 0, Some 0, Some 0]\<rparr>)) ! 2) = - 2"
proof -
  let ?w = "(initial_wizard [] 0 empty_catalogs)
      \<lparr>otherDirectT := [Some 0, Some 0, Some (- 5), Some 0, Some 0, Some 0]\<rparr>"
  have ri: "repIdx_of YEARS (perYear_of ?w) = 2"
    unfolding repIdx_of_direct cex_direct
    by (simp add: findIndex_def indexOf_def YEARS_def)
  have "direct_t (perYear_of ?w ! 2) = map direct_t (perYear_of ?w) ! 2"
    by (simp add: length_perYear_of)
  then have d2: "direct_t (perYear_of ?w ! 2) = - 2"
    unfolding cex_direct by simp
  have "rep (computed ?w) = perYear_of ?w ! 2"
    unfolding rep_computed ri by simp
  with d2 have "map_option abatement_tco2 (saveTemplate ?w True) = Some (Fin 0)"
    by (simp add: saveTemplate_def Let_def)
  moreover have "repIdx (computed ?w) = 2" using ri by (simp add: computed_def Let_def)
  moreover have "direct_t (perYear (computed ?w) ! 2) = - 2"
    using d2 by (simp add: computed_def Let_def)
  ultimately show ?thesis by blast
qed


lemma length_YEARS: "length YEARS = 6"
  by (simp add: YEARS_def)

lemma frtw_cr_zero_delta: "cell_at (delta lin) i = Some 0 \<Longrightarrow> frtw_cr DS adopt ysb i lin = 0"
  by (simp add: frtw_cr_def frtw_qty_def num0_def)

lemma elec_line_cr_zero_delta: "cell_at (deltaMWh lin) i = Some 0 \<Longrightarrow> elec_line_cr DS adopt ysb i lin = 0"
  by (simp add: elec_line_cr_def elec_mwh_def num0_def)

theorem saveTemplate_representative_witness:
  "saveTemplate ((initial_wizard [] 100 empty_catalogs)
      \<lparr>otherDirectT := [Some 0, Some 0, Some 5, Some 0, Some 0, Some 0],
       applyCarbonPriceInSave := True\<rparr>) True \<noteq> None
   \<and> abatement_tco2 (the (saveTemplate ((initial_wizard [] 100 empty_catalogs)
      \<lparr>otherDirectT := [Some 0, Some 0, Some 5, Some 0, Some 0, Some 0],
       applyCarbonPriceInSave := True\<rparr>) True)) = Fin 2
   \<and> cost_per_tco2 (the (saveTemplate ((initial_wizard [] 100 empty_catalogs)
      \<lparr>otherDirectT := [Some 0, Some 0, Some 5, Some 0, Some 0, Some 0],
       applyCarbonPriceInSave := True\<rparr>) True)) = Fin (- 100)"
proof -
  define w where "w = (initial_wizard [] 100 empty_catalogs)
      \<lparr>otherDirectT := [Some 0, Some 0, Some 5, Some 0, Some 0, Some 0],
       applyCarbonPriceInSave := True\<rparr>"
  define m where "m = the (saveTemplate w True)"
  note t = saveTemplate_representative [of w True m]
  from t have ne: "saveTemplate w True \<noteq> None" by (rule conjunct1)
  then have "saveTemplate w True = Some m" by (simp add: m_def)
  with t have "\<exists>d. measure_details m = Some (Template d)
         \<and> per_year d = perYear (computed w)
         \<and> representative_index d = repIdx_of YEARS (per_year d)
         \<and> saved_cost_includes_carbon_price d = applyCarbonPriceInSave w
         \<and> 0 \<le> representative_index d \<and> nat (representative_index d) < length (per_year d)
         \<and> abatement_tco2 m
             = Fin (max 0 (direct_t (per_year d ! nat (representative_index d))))
         \<and> (0 \<le> direct_t (per_year d ! nat (representative_index d)) \<longrightarrow>
              abatement_tco2 m = Fin (direct_t (per_year d ! nat (representative_index d))))
         \<and> cost_per_tco2 m
             = Fin (if saved_cost_includes_carbon_price d
                    then implied_cost_per_t_w (per_year d ! nat (representative_index d))
                    else implied_cost_per_t_wo (per_year d ! nat (representative_index d)))"
    by simp
  then obtain d :: template_details where d: "per_year d = perYear (computed w)"
    "representative_index d = repIdx_of YEARS (per_year d)"
    "saved_cost_includes_carbon_price d = applyCarbonPriceInSave w"
    "abatement_tco2 m = Fin (max 0 (direct_t (per_year d ! nat (representative_index d))))"
    "cost_per_tco2 m
       = Fin (if saved_cost_includes_carbon_price d
              then implied_cost_per_t_w (per_year d ! nat (representative_index d))
              else implied_cost_per_t_wo (per_year d ! nat (representative_index d)))"
    by blast
  have py: "per_year d = perYear_of w" using d(1) by (simp add: computed_def Let_def)
  have dt: "map direct_t (perYear_of w) = [0, 0, 2, 0, 0, 0]"
    unfolding map_direct_t_perYear_of direct_t_perYear_entry w_def
    by (simp add: initial_wizard_def initial_driver_line_def initial_elec_line_def
      makeZeros_def YEARS_def cell_at_def frtw_t_zero_delta elec_line_t_zero_delta
      num0_def enumerate_eq_zip upt_rec)
  have ri: "representative_index d = 2"
    unfolding d(2) py repIdx_of_direct dt
    by (simp add: findIndex_def indexOf_def YEARS_def)
  have e2: "per_year d ! 2 = perYear_entry w 2 2035"
    unfolding py perYear_of_entries by simp
  have "direct_t (per_year d ! 2) = 2" "implied_cost_per_t_w (per_year d ! 2) = - 100"
    unfolding e2 w_def
    by (simp_all add: perYear_entry_def Let_def initial_wizard_def initial_driver_line_def
      initial_elec_line_def makeZeros_def YEARS_def cell_at_def frtw_t_zero_delta
      elec_line_t_zero_delta frtw_cr_zero_delta elec_line_cr_zero_delta
      num0_def enumerate_eq_zip upt_rec)
  with d(3,4,5) ri ne show ?thesis by (simp add: w_def m_def)
qed

section \<open>Curve builder: properties\<close>

lemma plot_x_mono: "u \<le> v \<Longrightarrow> plot_x mode denom u \<le> plot_x mode denom v"
  by (simp add: plot_x_def divide_right_mono)

lemma segment_step_skip:
  "\<not> (isFinite (orZero (abatement_tco2 m)) \<and> isFinite (orZero (effective_cost m))
      \<and> js_less (Fin 0) (orZero (abatement_tco2 m)))
   \<Longrightarrow> segment_step mode denom (idx, m) st = st"
  by (cases st; cases "orZero (abatement_tco2 m)"; cases "orZero (effective_cost m)")
    (auto simp: segment_step_def)

lemma segment_step_emit:
  assumes "isFinite (orZero (abatement_tco2 m))" "isFinite (orZero (effective_cost m))"
    "js_less (Fin 0) (orZero (abatement_tco2 m))"
  shows "\<exists>A s. orZero (abatement_tco2 m) = Fin A \<and> 0 < A \<and> abatement s = A
      \<and> x1_plot s = plot_x mode denom cum \<and> x2_plot s = plot_x mode denom (cum + A)
      \<and> segment_step mode denom (idx, m) (cum, segs) = (cum + A, segs @ [s])"
  using assms
  by (cases "orZero (abatement_tco2 m)"; cases "orZero (effective_cost m)")
    (auto simp: segment_step_def Let_def)

text \<open>What holds of the running total and the segments after every step.\<close>

lemma segment_step_invariant:
  assumes "\<forall>k. Suc k < length segs \<longrightarrow> x1_plot (segs ! Suc k) = x2_plot (segs ! k)"
    and "sorted (map x2_plot segs)"
    and "segs \<noteq> [] \<longrightarrow> x2_plot (last segs) = plot_x mode denom cum"
    and "\<forall>s\<in>set segs. 0 < abatement s \<and> x1_plot s \<le> x2_plot s"
    and "segment_step mode denom im (cum, segs) = (cum', segs')"
  shows "(\<forall>k. Suc k < length segs' \<longrightarrow> x1_plot (segs' ! Suc k) = x2_plot (segs' ! k))
    \<and> sorted (map x2_plot segs')
    \<and> (segs' \<noteq> [] \<longrightarrow> x2_plot (last segs') = plot_x mode denom cum')
    \<and> (\<forall>s\<in>set segs'. 0 < abatement s \<and> x1_plot s \<le> x2_plot s)"
proof -
  obtain idx m where im: "im = (idx, m)" by (cases im)
  show ?thesis
  proof (cases "isFinite (orZero (abatement_tco2 m)) \<and> isFinite (orZero (effective_cost m))
      \<and> js_less (Fin 0) (orZero (abatement_tco2 m))")
    case False
    from segment_step_skip [OF False] assms(5) have "cum' = cum" "segs' = segs"
      by (simp_all add: im)
    with assms(1-4) show ?thesis by simp
  next
    case True
    from segment_step_emit [of m mode denom cum idx segs] True assms(5)
    obtain A s where s: "0 < A" "abatement s = A" "x1_plot s = plot_x mode denom cum"
      "x2_plot s = plot_x mode denom (cum + A)" "cum' = cum + A" "segs' = segs @ [s]"
      by (auto simp: im)
    have le: "plot_x mode denom cum \<le> plot_x mode denom (cum + A)"
      using s(1) by (intro plot_x_mono) simp
    have a: "\<forall>k. Suc k < length segs' \<longrightarrow> x1_plot (segs' ! Suc k) = x2_plot (segs' ! k)"
    proof (intro allI impI)
      fix k assume k: "Suc k < length segs'"
      show "x1_plot (segs' ! Suc k) = x2_plot (segs' ! k)"
      proof (cases "Suc k < length segs")
        case True
        with assms(1) show ?thesis by (simp add: s(6) nth_append)
      next
        case False
        with k have e: "Suc k = length segs" by (simp add: s(6))
        then have ne: "segs \<noteq> []" by auto
        have "last segs = segs ! (length segs - 1)" using ne by (rule last_conv_nth)
        moreover have "length segs - 1 = k" using e by arith
        ultimately have "segs \<noteq> []" "segs ! k = last segs"
          using ne by simp_all
        with e assms(3) s(3) show ?thesis by (simp add: s(6) nth_append)
      qed
    qed
    have b: "sorted (map x2_plot segs')"
    proof -
      have "\<forall>u\<in>set segs. x2_plot u \<le> x2_plot s"
      proof
        fix u assume u: "u \<in> set segs"
        then have ne: "segs \<noteq> []" by auto
        from u obtain j where j: "j < length segs" "segs ! j = u"
          by (auto simp: in_set_conv_nth)
        have "map x2_plot segs ! j \<le> map x2_plot segs ! (length segs - 1)"
          using assms(2) j(1) by (intro sorted_nth_mono) simp_all
        then have "x2_plot u \<le> x2_plot (last segs)"
          using j ne by (simp add: last_conv_nth)
        with assms(3) ne le s(4) show "x2_plot u \<le> x2_plot s" by simp
      qed
      with assms(2) show ?thesis by (simp add: s(6) sorted_append)
    qed
    from a b s le assms(4) show ?thesis by auto
  qed
qed

lemma fold_segment_step_invariant:
  assumes "\<forall>k. Suc k < length segs \<longrightarrow> x1_plot (segs ! Suc k) = x2_plot (segs ! k)"
    and "sorted (map x2_plot segs)"
    and "segs \<noteq> [] \<longrightarrow> x2_plot (last segs) = plot_x mode denom cum"
    and "\<forall>s\<in>set segs. 0 < abatement s \<and> x1_plot s \<le> x2_plot s"
    and "fold (segment_step mode denom) ims (cum, segs) = (cum', segs')"
  shows "(\<forall>k. Suc k < length segs' \<longrightarrow> x1_plot (segs' ! Suc k) = x2_plot (segs' ! k))
    \<and> sorted (map x2_plot segs')
    \<and> (segs' \<noteq> [] \<longrightarrow> x2_plot (last segs') = plot_x mode denom cum')
    \<and> (\<forall>s\<in>set segs'. 0 < abatement s \<and> x1_plot s \<le> x2_plot s)"
  using assms
proof (induction ims arbitrary: cum segs)
  case Nil
  then show ?case by simp
next
  case (Cons im ims)
  obtain c1 s1 where st: "segment_step mode denom im (cum, segs) = (c1, s1)"
    by (cases "segment_step mode denom im (cum, segs)")
  from segment_step_invariant [OF Cons.prems(1-4) st]
  have i1: "\<forall>k. Suc k < length s1 \<longrightarrow> x1_plot (s1 ! Suc k) = x2_plot (s1 ! k)"
    "sorted (map x2_plot s1)" "s1 \<noteq> [] \<longrightarrow> x2_plot (last s1) = plot_x mode denom c1"
    "\<forall>s\<in>set s1. 0 < abatement s \<and> x1_plot s \<le> x2_plot s"
    by simp_all
  from Cons.prems(5) st have "fold (segment_step mode denom) ims (c1, s1) = (cum', segs')"
    by simp
  from Cons.IH [OF i1 this] show ?case .
qed

lemma fold_segment_step_emitted:
  "map (\<lambda>s. Fin (abatement s)) (snd (fold (segment_step mode denom) (enumerate n rs) (cum, segs)))
   = map (\<lambda>s. Fin (abatement s)) segs
     @ map (\<lambda>m. orZero (abatement_tco2 m))
         (filter (\<lambda>m. isFinite (orZero (abatement_tco2 m)) \<and> isFinite (orZero (effective_cost m))
            \<and> js_less (Fin 0) (orZero (abatement_tco2 m))) rs)"
proof (induction rs arbitrary: n cum segs)
  case Nil
  then show ?case by simp
next
  case (Cons m rs)
  show ?case
  proof (cases "isFinite (orZero (abatement_tco2 m)) \<and> isFinite (orZero (effective_cost m))
      \<and> js_less (Fin 0) (orZero (abatement_tco2 m))")
    case False
    from segment_step_skip [OF False] Cons.IH False show ?thesis by simp
  next
    case True
    from segment_step_emit [of m mode denom cum n segs] True
    obtain A s where s: "orZero (abatement_tco2 m) = Fin A" "abatement s = A"
      "segment_step mode denom (n, m) (cum, segs) = (cum + A, segs @ [s])"
      by auto
    with Cons.IH True show ?thesis by simp
  qed
qed

text \<open>
  Claim C4. For every list of ranked measures, in capacity mode and in intensity mode
  (any \<open>mode\<close>, any baseline \<open>denom\<close>), the curve builder emits one segment, in
  order, for each measure whose abatement and effective cost are finite and whose
  abatement is positive, and none for a measure whose abatement is not finite or not
  positive. Every segment after the first starts where the segment before it ends, and
  the right ends of the segments never decrease.
\<close>

theorem segments_contiguous_monotone:
  "map (\<lambda>s. Fin (abatement s)) (segments mode denom rs)
     = map (\<lambda>m. orZero (abatement_tco2 m))
         (filter (\<lambda>m. isFinite (orZero (abatement_tco2 m)) \<and> isFinite (orZero (effective_cost m))
            \<and> js_less (Fin 0) (orZero (abatement_tco2 m))) rs)
   \<and> (\<forall>s\<in>set (segments mode denom rs). 0 < abatement s \<and> x1_plot s \<le> x2_plot s)
   \<and> (\<forall>k. Suc k < length (segments mode denom rs) \<longrightarrow>
        x1_plot (segments mode denom rs ! Suc k) = x2_plot (segments mode denom rs ! k))
   \<and> sorted (map x2_plot (segments mode denom rs))"
proof -
  obtain c s where f: "fold (segment_step mode denom) (enumerate 0 rs) (0, []) = (c, s)"
    by (cases "fold (segment_step mode denom) (enumerate 0 rs) (0, [])")
  then have seg: "segments mode denom rs = s" by (simp add: segments_def)
  have inv: "(\<forall>k. Suc k < length s \<longrightarrow> x1_plot (s ! Suc k) = x2_plot (s ! k))
    \<and> sorted (map x2_plot s)
    \<and> (s \<noteq> [] \<longrightarrow> x2_plot (last s) = plot_x mode denom c)
    \<and> (\<forall>u\<in>set s. 0 < abatement u \<and> x1_plot u \<le> x2_plot u)"
    by (rule fold_segment_step_invariant [OF _ _ _ _ f]) simp_all
  have "map (\<lambda>s. Fin (abatement s)) (segments mode denom rs)
     = map (\<lambda>m. orZero (abatement_tco2 m))
         (filter (\<lambda>m. isFinite (orZero (abatement_tco2 m)) \<and> isFinite (orZero (effective_cost m))
            \<and> js_less (Fin 0) (orZero (abatement_tco2 m))) rs)"
    unfolding segments_def using fold_segment_step_emitted [of mode denom 0 rs 0 "[]"] by simp
  with inv show ?thesis unfolding seg by blast
qed


theorem segments_contiguous_monotone_witness:
  "map (\<lambda>s. (x1_plot s, x2_plot s, abatement s)) (segments ''intensity'' 200
     [\<lparr>measure_id = Some 1, measure_name = ''Waste heat recovery'', sector = ''Cement'',
        abatement_tco2 = Fin 10, cost_per_tco2 = Fin 5, selected = True,
        measure_details = None, effective_cost = Fin 5\<rparr>,
      \<lparr>measure_id = Some 2, measure_name = ''Imported row'', sector = ''Cement'',
        abatement_tco2 = PInf, cost_per_tco2 = Fin 6, selected = True,
        measure_details = None, effective_cost = Fin 6\<rparr>,
      \<lparr>measure_id = Some 3, measure_name = ''Fuel switch'', sector = ''Cement'',
        abatement_tco2 = Fin (- 3), cost_per_tco2 = Fin 6, selected = True,
        measure_details = None, effective_cost = Fin 6\<rparr>,
      \<lparr>measure_id = Some 4, measure_name = ''Solar'', sector = ''Power'',
        abatement_tco2 = Fin 30, cost_per_tco2 = Fin 7, selected = True,
        measure_details = None, effective_cost = Fin 7\<rparr>])
     = [(0, 5, 10), (5, 20, 30)]
   \<and> map (\<lambda>s. (x1_plot s, x2_plot s, abatement s)) (segments ''capacity'' 200
     [\<lparr>measure_id = Some 1, measure_name = ''Waste heat recovery'', sector = ''Cement'',
        abatement_tco2 = Fin 10, cost_per_tco2 = Fin 5, selected = True,
        measure_details = None, effective_cost = Fin 5\<rparr>,
      \<lparr>measure_id = Some 2, measure_name = ''Imported row'', sector = ''Cement'',
        abatement_tco2 = PInf, cost_per_tco2 = Fin 6, selected = True,
        measure_details = None, effective_cost = Fin 6\<rparr>,
      \<lparr>measure_id = Some 3, measure_name = ''Fuel switch'', sector = ''Cement'',
        abatement_tco2 = Fin (- 3), cost_per_tco2 = Fin 6, selected = True,
        measure_details = None, effective_cost = Fin 6\<rparr>,
      \<lparr>measure_id = Some 4, measure_name = ''Solar'', sector = ''Power'',
        abatement_tco2 = Fin 30, cost_per_tco2 = Fin 7, selected = True,
        measure_details = None, effective_cost = Fin 7\<rparr>])
     = [(0, 10, 10), (10, 40, 30)]"
  using segments_contiguous_monotone [of "''intensity''" 200
     "[\<lparr>measure_id = Some 1, measure_name = ''Waste heat recovery'', sector = ''Cement'',
        abatement_tco2 = Fin 10, cost_per_tco2 = Fin 5, selected = True,
        measure_details = None, effective_cost = Fin 5\<rparr>,
      \<lparr>measure_id = Some 2, measure_name = ''Imported row'', sector = ''Cement'',
        abatement_tco2 = PInf, cost_per_tco2 = Fin 6, selected = True,
        measure_details = None, effective_cost = Fin 6\<rparr>,
      \<lparr>measure_id = Some 3, measure_name = ''Fuel switch'', sector = ''Cement'',
        abatement_tco2 = Fin (- 3), cost_per_tco2 = Fin 6, selected = True,
        measure_details = None, effective_cost = Fin 6\<rparr>,
      \<lparr>measure_id = Some 4, measure_name = ''Solar'', sector = ''Power'',
        abatement_tco2 = Fin 30, cost_per_tco2 = Fin 7, selected = True,
        measure_details = None, effective_cost = Fin 7\<rparr>]"]
    segments_contiguous_monotone [of "''capacity''" 200
     "[\<lparr>measure_id = Some 1, measure_name = ''Waste heat recovery'', sector = ''Cement'',
        abatement_tco2 = Fin 10, cost_per_tco2 = Fin 5, selected = True,
        measure_details = None, effective_cost = Fin 5\<rparr>,
      \<lparr>measure_id = Some 2, measure_name = ''Imported row'', sector = ''Cement'',
        abatement_tco2 = PInf, cost_per_tco2 = Fin 6, selected = True,
        measure_details = None, effective_cost = Fin 6\<rparr>,
      \<lparr>measure_id = Some 3, measure_name = ''Fuel switch'', sector = ''Cement'',
        abatement_tco2 = Fin (- 3), cost_per_tco2 = Fin 6, selected = True,
        measure_details = None, effective_cost = Fin 6\<rparr>,
      \<lparr>measure_id = Some 4, measure_name = ''Solar'', sector = ''Power'',
        abatement_tco2 = Fin 30, cost_per_tco2 = Fin 7, selected = True,
        measure_details = None, effective_cost = Fin 7\<rparr>]"]
  by (simp add: segments_def segment_step_def plot_x_def PALETTE_def)

section \<open>Catalog resolver: properties\<close>

text \<open>A list without its repeated elements, each kept where it first occurs.\<close>

lemma remdups_snoc:
  "remdups (xs @ [k]) = filter (\<lambda>j. j \<noteq> k) (remdups xs) @ [k]"
  by (induction xs) auto

lemma first_occurrences_Cons:
  "rev (remdups (rev (k # ks))) = k # filter (\<lambda>j. j \<noteq> k) (rev (remdups (rev ks)))"
  by (simp add: remdups_snoc rev_filter)

lemma first_occurrences_append:
  "rev (remdups (rev (xs @ ys)))
   = rev (remdups (rev xs)) @ filter (\<lambda>k. k \<notin> set xs) (rev (remdups (rev ys)))"
proof (induction xs)
  case Nil
  then show ?case by simp
next
  case (Cons x xs)
  have "rev (remdups (rev ((x # xs) @ ys)))
      = x # filter (\<lambda>j. j \<noteq> x) (rev (remdups (rev (xs @ ys))))"
    using first_occurrences_Cons [of x "xs @ ys"] by simp
  also have "\<dots> = x # filter (\<lambda>j. j \<noteq> x) (rev (remdups (rev xs)))
      @ filter (\<lambda>k. k \<notin> set (x # xs)) (rev (remdups (rev ys)))"
    unfolding Cons.IH by (auto intro: filter_cong)
  also have "\<dots> = rev (remdups (rev (x # xs)))
      @ filter (\<lambda>k. k \<notin> set (x # xs)) (rev (remdups (rev ys)))"
    using first_occurrences_Cons [of x xs] by simp
  finally show ?case .
qed

lemma update_keys_append:
  "map fst (AList.update k v al) = map fst al @ filter (\<lambda>j. j \<notin> fst ` set al) [k]"
  by (simp add: update_keys image_iff)

lemma fold_merge_row_keys:
  "map fst (fold (merge_row K) xs al)
   = map fst al @ filter (\<lambda>k. k \<notin> fst ` set al) (rev (remdups (rev (List.map_filter (row_key K) xs))))"
proof (induction xs arbitrary: al)
  case Nil
  then show ?case by simp
next
  case (Cons x xs)
  show ?case
  proof (cases "row_key K x")
    case None
    then have "merge_row K x al = al" by (simp add: merge_row_def)
    with Cons.IH [of al] None show ?thesis by simp
  next
    case (Some k)
    let ?ks = "rev (remdups (rev (List.map_filter (row_key K) xs)))"
    have m: "merge_row K x al = AList.update k x al" using Some by (simp add: merge_row_def)
    have s: "fst ` set (AList.update k x al) = insert k (fst ` set al)"
      using dom_update [of k x al] by simp
    have "map fst (fold (merge_row K) (x # xs) al)
        = map fst (AList.update k x al)
          @ filter (\<lambda>j. j \<notin> fst ` set (AList.update k x al)) ?ks"
      using Cons.IH [of "AList.update k x al"] m by simp
    also have "\<dots> = map fst al @ filter (\<lambda>j. j \<notin> fst ` set al)
        (k # filter (\<lambda>j. j \<noteq> k) ?ks)"
      unfolding update_keys_append s by (auto intro: filter_cong)
    also have "k # filter (\<lambda>j. j \<noteq> k) ?ks
        = rev (remdups (rev (List.map_filter (row_key K) (x # xs))))"
      using first_occurrences_Cons [of k "List.map_filter (row_key K) xs"] Some by simp
    finally show ?thesis .
  qed
qed

lemma fold_merge_row_map_of:
  "map_of (fold (merge_row K) xs al) k
   = (if filter (\<lambda>y. row_key K y = Some k) xs = [] then map_of al k
      else Some (last (filter (\<lambda>y. row_key K y = Some k) xs)))"
proof (induction xs arbitrary: al)
  case Nil
  then show ?case by simp
next
  case (Cons x xs)
  show ?case
  proof (cases "row_key K x")
    case None
    with Cons.IH [of al] show ?thesis by (simp add: merge_row_def)
  next
    case (Some j)
    with Cons.IH [of "AList.update j x al"] show ?thesis
      by (auto simp: merge_row_def update_conv')
  qed
qed

lemma map_snd_by_keys:
  "distinct (map fst al) \<Longrightarrow> map snd al = map (\<lambda>k. the (map_of al k)) (map fst al)"
proof (induction al)
  case Nil
  then show ?case by simp
next
  case (Cons p al)
  then have "map snd al = map (\<lambda>k. the (map_of al k)) (map fst al)" by simp
  also have "\<dots> = map (\<lambda>k. the (map_of (p # al) k)) (map fst al)"
    using Cons.prems by (intro map_cong) (auto simp: image_iff)
  finally show ?case by simp
qed

lemma in_map_filter_row_key:
  "k \<in> set (List.map_filter (row_key K) xs) \<longleftrightarrow> filter (\<lambda>y. row_key K y = Some k) xs \<noteq> []"
  by (auto simp: List.map_filter_def filter_empty_conv image_iff)

lemma mergedBy_characterisation:
  "mergedBy A B K
   = map (\<lambda>k. last (filter (\<lambda>y. row_key K y = Some k) (A @ B)))
       (rev (remdups (rev (List.map_filter (row_key K) (A @ B)))))"
proof -
  let ?m = "fold (merge_row K) (A @ B) []"
  let ?ks = "rev (remdups (rev (List.map_filter (row_key K) (A @ B))))"
  have keys: "map fst ?m = ?ks"
    using fold_merge_row_keys [of K "A @ B" "[]"] by simp
  then have "distinct (map fst ?m)" by simp
  then have "map snd ?m = map (\<lambda>k. the (map_of ?m k)) (map fst ?m)"
    by (rule map_snd_by_keys)
  then have "map snd ?m = map (\<lambda>k. the (map_of ?m k)) ?ks"
    unfolding keys .
  also have "\<dots> = map (\<lambda>k. last (filter (\<lambda>y. row_key K y = Some k) (A @ B))) ?ks"
  proof (rule map_cong [OF refl])
    fix k assume "k \<in> set ?ks"
    then have ne: "filter (\<lambda>y. row_key K y = Some k) (A @ B) \<noteq> []"
      using in_map_filter_row_key [of k K "A @ B"] by simp
    have "map_of ?m k = Some (last (filter (\<lambda>y. row_key K y = Some k) (A @ B)))"
      unfolding fold_merge_row_map_of using ne by (rule if_not_P)
    then show "the (map_of ?m k) = last (filter (\<lambda>y. row_key K y = Some k) (A @ B))"
      by simp
  qed
  finally show ?thesis by (simp add: mergedBy_def)
qed


lemma last_filter_in: "filter P xs \<noteq> [] \<Longrightarrow> last (filter P xs) \<in> set xs \<and> P (last (filter P xs))"
  using last_in_set [of "filter P xs"] by auto

text \<open>
  Claim C7. In merged mode every category is \<open>mergedBy\<close> of the sample rows and the
  custom rows, keyed by \<^verbatim>\<open>name\<close> (by \<^verbatim>\<open>state\<close> for electricity), lower-cased. The
  result has one row for each key, in the order in which the keys first occur: the keys
  of the sample rows first, then the keys that only custom rows have (\<open>rev (remdups (rev
  ks))\<close> keeps the first occurrence of every element of \<open>ks\<close>). The row of a key is
  the last row with that key, sample rows before custom rows, so a custom row replaces a
  sample row of the same key; every row of the result is a row of the input, unchanged,
  and a sample row whose key no other row has is in the result.
\<close>

theorem mergedBy_override_order:
  "mergedBy A B K
     = map (\<lambda>k. last (filter (\<lambda>y. row_key K y = Some k) (A @ B)))
         (rev (remdups (rev (List.map_filter (row_key K) A)))
          @ filter (\<lambda>k. k \<notin> set (List.map_filter (row_key K) A))
              (rev (remdups (rev (List.map_filter (row_key K) B)))))
   \<and> set (mergedBy A B K) \<subseteq> set A \<union> set B
   \<and> (\<forall>x\<in>set (mergedBy A B K). \<forall>k. row_key K x = Some k \<and> (\<exists>y\<in>set B. row_key K y = Some k)
        \<longrightarrow> x \<in> set B)
   \<and> (\<forall>x\<in>set A. \<forall>k. row_key K x = Some k \<and> filter (\<lambda>y. row_key K y = Some k) (A @ B) = [x]
        \<longrightarrow> x \<in> set (mergedBy A B K))
   \<and> (catalogMode \<noteq> ''sample'' \<and> catalogMode \<noteq> ''custom'' \<longrightarrow>
        resolvedCatalogs S C catalogMode
          = \<lparr>fuels = mergedBy (fuels S) (fuels C) name,
             raw = mergedBy (raw S) (raw C) name,
             transport = mergedBy (transport S) (transport C) name,
             waste = mergedBy (waste S) (waste C) name,
             electricity = mergedBy (electricity S) (electricity C) state\<rparr>)"
proof -
  let ?ks = "rev (remdups (rev (List.map_filter (row_key K) (A @ B))))"
  let ?row = "\<lambda>k. last (filter (\<lambda>y. row_key K y = Some k) (A @ B))"
  have ch: "mergedBy A B K = map ?row ?ks" by (rule mergedBy_characterisation)
  have ks: "?ks = rev (remdups (rev (List.map_filter (row_key K) A)))
          @ filter (\<lambda>k. k \<notin> set (List.map_filter (row_key K) A))
              (rev (remdups (rev (List.map_filter (row_key K) B))))"
    using first_occurrences_append [of "List.map_filter (row_key K) A" "List.map_filter (row_key K) B"]
    by (simp add: List.map_filter_def)
  have row: "?row k \<in> set (A @ B) \<and> row_key K (?row k) = Some k" if "k \<in> set ?ks" for k
  proof -
    from that have "filter (\<lambda>y. row_key K y = Some k) (A @ B) \<noteq> []"
      using in_map_filter_row_key [of k K "A @ B"] by simp
    then show ?thesis by (rule last_filter_in)
  qed
  have sub: "set (mergedBy A B K) \<subseteq> set A \<union> set B"
    unfolding ch using row by auto
  have ov: "x \<in> set B"
    if x: "x \<in> set (mergedBy A B K)" and k: "row_key K x = Some k"
      and y: "\<exists>y\<in>set B. row_key K y = Some k" for x k
  proof -
    from x obtain j where j: "j \<in> set ?ks" "x = ?row j" unfolding ch by auto
    with row [OF j(1)] k have jk: "j = k" by simp
    from y have ne: "filter (\<lambda>y. row_key K y = Some k) B \<noteq> []"
      by (auto simp: filter_empty_conv)
    then have "?row k = last (filter (\<lambda>y. row_key K y = Some k) B)" by simp
    with last_filter_in [OF ne] j(2) jk show ?thesis by simp
  qed
  have only: "x \<in> set (mergedBy A B K)"
    if "x \<in> set A" and k: "row_key K x = Some k"
      and f: "filter (\<lambda>y. row_key K y = Some k) (A @ B) = [x]" for x k
  proof -
    from f have "k \<in> set ?ks" using in_map_filter_row_key [of k K "A @ B"] by simp
    moreover from f have "?row k = x" by simp
    ultimately show ?thesis unfolding ch by force
  qed
  have rc: "catalogMode \<noteq> ''sample'' \<and> catalogMode \<noteq> ''custom'' \<longrightarrow>
        resolvedCatalogs S C catalogMode
          = \<lparr>fuels = mergedBy (fuels S) (fuels C) name,
             raw = mergedBy (raw S) (raw C) name,
             transport = mergedBy (transport S) (transport C) name,
             waste = mergedBy (waste S) (waste C) name,
             electricity = mergedBy (electricity S) (electricity C) state\<rparr>"
    by (simp add: resolvedCatalogs_def)
  show ?thesis
  proof (intro conjI ballI allI)
    show "mergedBy A B K
     = map (\<lambda>k. last (filter (\<lambda>y. row_key K y = Some k) (A @ B)))
         (rev (remdups (rev (List.map_filter (row_key K) A)))
          @ filter (\<lambda>k. k \<notin> set (List.map_filter (row_key K) A))
              (rev (remdups (rev (List.map_filter (row_key K) B)))))"
      using ch unfolding ks .
    show "set (mergedBy A B K) \<subseteq> set A \<union> set B" by (rule sub)
  next
    fix x k assume "x \<in> set (mergedBy A B K)"
    then show "row_key K x = Some k \<and> (\<exists>y\<in>set B. row_key K y = Some k) \<longrightarrow> x \<in> set B"
      using ov by blast
  next
    fix x k assume "x \<in> set A"
    then show "row_key K x = Some k \<and> filter (\<lambda>y. row_key K y = Some k) (A @ B) = [x]
        \<longrightarrow> x \<in> set (mergedBy A B K)"
      using only by blast
  qed (rule rc)
qed

lemma lower_examples:
  "toLowerCase ''Coal'' = ''coal''" "toLowerCase ''COAL'' = ''coal''"
  "toLowerCase ''Gas'' = ''gas''" "toLowerCase ''Lime'' = ''lime''"
  by code_simp+


theorem mergedBy_override_order_witness:
  "mergedBy [\<lparr>name = Some ''Coal'', price = Some 100, price_per_unit_inr = None, ef_tco2_per_unit = Some 2, ef_t_per_unit = None\<rparr>, \<lparr>name = Some ''Gas'', price = Some 40, price_per_unit_inr = None, ef_tco2_per_unit = Some 1, ef_t_per_unit = None\<rparr>] [\<lparr>name = Some ''Coal'', price = Some 150, price_per_unit_inr = None, ef_tco2_per_unit = Some 2, ef_t_per_unit = None\<rparr>] name = [\<lparr>name = Some ''Coal'', price = Some 150, price_per_unit_inr = None, ef_tco2_per_unit = Some 2, ef_t_per_unit = None\<rparr>, \<lparr>name = Some ''Gas'', price = Some 40, price_per_unit_inr = None, ef_tco2_per_unit = Some 1, ef_t_per_unit = None\<rparr>]
   \<and> mergedBy [\<lparr>name = Some ''Coal'', price = Some 100, price_per_unit_inr = None, ef_tco2_per_unit = Some 2, ef_t_per_unit = None\<rparr>, \<lparr>name = Some ''Gas'', price = Some 40, price_per_unit_inr = None, ef_tco2_per_unit = Some 1, ef_t_per_unit = None\<rparr>] [\<lparr>name = Some ''COAL'', price = Some 150, price_per_unit_inr = None, ef_tco2_per_unit = Some 2, ef_t_per_unit = None\<rparr>, \<lparr>name = Some ''Lime'', price = Some 9, price_per_unit_inr = None, ef_tco2_per_unit = None, ef_t_per_unit = None\<rparr>] name = [\<lparr>name = Some ''COAL'', price = Some 150, price_per_unit_inr = None, ef_tco2_per_unit = Some 2, ef_t_per_unit = None\<rparr>, \<lparr>name = Some ''Gas'', price = Some 40, price_per_unit_inr = None, ef_tco2_per_unit = Some 1, ef_t_per_unit = None\<rparr>, \<lparr>name = Some ''Lime'', price = Some 9, price_per_unit_inr = None, ef_tco2_per_unit = None, ef_t_per_unit = None\<rparr>]
   \<and> fuels (resolvedCatalogs
        \<lparr>fuels = [\<lparr>name = Some ''Coal'', price = Some 100, price_per_unit_inr = None, ef_tco2_per_unit = Some 2, ef_t_per_unit = None\<rparr>, \<lparr>name = Some ''Gas'', price = Some 40, price_per_unit_inr = None, ef_tco2_per_unit = Some 1, ef_t_per_unit = None\<rparr>], raw = [], transport = [], waste = [], electricity = []\<rparr>
        \<lparr>fuels = [\<lparr>name = Some ''COAL'', price = Some 150, price_per_unit_inr = None, ef_tco2_per_unit = Some 2, ef_t_per_unit = None\<rparr>, \<lparr>name = Some ''Lime'', price = Some 9, price_per_unit_inr = None, ef_tco2_per_unit = None, ef_t_per_unit = None\<rparr>], raw = [], transport = [], waste = [], electricity = []\<rparr>
        ''merged'') = [\<lparr>name = Some ''COAL'', price = Some 150, price_per_unit_inr = None, ef_tco2_per_unit = Some 2, ef_t_per_unit = None\<rparr>, \<lparr>name = Some ''Gas'', price = Some 40, price_per_unit_inr = None, ef_tco2_per_unit = Some 1, ef_t_per_unit = None\<rparr>, \<lparr>name = Some ''Lime'', price = Some 9, price_per_unit_inr = None, ef_tco2_per_unit = None, ef_t_per_unit = None\<rparr>]"
proof -
  have k: "row_key name \<lparr>name = Some ''Coal'', price = Some 100, price_per_unit_inr = None, ef_tco2_per_unit = Some 2, ef_t_per_unit = None\<rparr> = Some ''coal''" "row_key name \<lparr>name = Some ''COAL'', price = Some 150, price_per_unit_inr = None, ef_tco2_per_unit = Some 2, ef_t_per_unit = None\<rparr> = Some ''coal''"
    "row_key name \<lparr>name = Some ''Gas'', price = Some 40, price_per_unit_inr = None, ef_tco2_per_unit = Some 1, ef_t_per_unit = None\<rparr> = Some ''gas''" "row_key name \<lparr>name = Some ''Lime'', price = Some 9, price_per_unit_inr = None, ef_tco2_per_unit = None, ef_t_per_unit = None\<rparr> = Some ''lime''"
    by (simp_all add: row_key_def lower_examples)
  note t = mergedBy_override_order [of "[\<lparr>name = Some ''Coal'', price = Some 100, price_per_unit_inr = None, ef_tco2_per_unit = Some 2, ef_t_per_unit = None\<rparr>, \<lparr>name = Some ''Gas'', price = Some 40, price_per_unit_inr = None, ef_tco2_per_unit = Some 1, ef_t_per_unit = None\<rparr>]" "[\<lparr>name = Some ''COAL'', price = Some 150, price_per_unit_inr = None, ef_tco2_per_unit = Some 2, ef_t_per_unit = None\<rparr>, \<lparr>name = Some ''Lime'', price = Some 9, price_per_unit_inr = None, ef_tco2_per_unit = None, ef_t_per_unit = None\<rparr>]" name "''merged''"
      "\<lparr>fuels = [\<lparr>name = Some ''Coal'', price = Some 100, price_per_unit_inr = None, ef_tco2_per_unit = Some 2, ef_t_per_unit = None\<rparr>, \<lparr>name = Some ''Gas'', price = Some 40, price_per_unit_inr = None, ef_tco2_per_unit = Some 1, ef_t_per_unit = None\<rparr>], raw = [], transport = [], waste = [], electricity = []\<rparr>"
      "\<lparr>fuels = [\<lparr>name = Some ''COAL'', price = Some 150, price_per_unit_inr = None, ef_tco2_per_unit = Some 2, ef_t_per_unit = None\<rparr>, \<lparr>name = Some ''Lime'', price = Some 9, price_per_unit_inr = None, ef_tco2_per_unit = None, ef_t_per_unit = None\<rparr>], raw = [], transport = [], waste = [], electricity = []\<rparr>"]
  from t [THEN conjunct1]
  have m: "mergedBy [\<lparr>name = Some ''Coal'', price = Some 100, price_per_unit_inr = None, ef_tco2_per_unit = Some 2, ef_t_per_unit = None\<rparr>, \<lparr>name = Some ''Gas'', price = Some 40, price_per_unit_inr = None, ef_tco2_per_unit = Some 1, ef_t_per_unit = None\<rparr>] [\<lparr>name = Some ''COAL'', price = Some 150, price_per_unit_inr = None, ef_tco2_per_unit = Some 2, ef_t_per_unit = None\<rparr>, \<lparr>name = Some ''Lime'', price = Some 9, price_per_unit_inr = None, ef_tco2_per_unit = None, ef_t_per_unit = None\<rparr>] name = [\<lparr>name = Some ''COAL'', price = Some 150, price_per_unit_inr = None, ef_tco2_per_unit = Some 2, ef_t_per_unit = None\<rparr>, \<lparr>name = Some ''Gas'', price = Some 40, price_per_unit_inr = None, ef_tco2_per_unit = Some 1, ef_t_per_unit = None\<rparr>, \<lparr>name = Some ''Lime'', price = Some 9, price_per_unit_inr = None, ef_tco2_per_unit = None, ef_t_per_unit = None\<rparr>]"
    by (simp add: k)
  have "''merged'' \<noteq> ''sample'' \<and> ''merged'' \<noteq> ''custom''" by simp
  with t have "fuels (resolvedCatalogs
        \<lparr>fuels = [\<lparr>name = Some ''Coal'', price = Some 100, price_per_unit_inr = None, ef_tco2_per_unit = Some 2, ef_t_per_unit = None\<rparr>, \<lparr>name = Some ''Gas'', price = Some 40, price_per_unit_inr = None, ef_tco2_per_unit = Some 1, ef_t_per_unit = None\<rparr>], raw = [], transport = [], waste = [], electricity = []\<rparr>
        \<lparr>fuels = [\<lparr>name = Some ''COAL'', price = Some 150, price_per_unit_inr = None, ef_tco2_per_unit = Some 2, ef_t_per_unit = None\<rparr>, \<lparr>name = Some ''Lime'', price = Some 9, price_per_unit_inr = None, ef_tco2_per_unit = None, ef_t_per_unit = None\<rparr>], raw = [], transport = [], waste = [], electricity = []\<rparr>
        ''merged'') = mergedBy [\<lparr>name = Some ''Coal'', price = Some 100, price_per_unit_inr = None, ef_tco2_per_unit = Some 2, ef_t_per_unit = None\<rparr>, \<lparr>name = Some ''Gas'', price = Some 40, price_per_unit_inr = None, ef_tco2_per_unit = Some 1, ef_t_per_unit = None\<rparr>] [\<lparr>name = Some ''COAL'', price = Some 150, price_per_unit_inr = None, ef_tco2_per_unit = Some 2, ef_t_per_unit = None\<rparr>, \<lparr>name = Some ''Lime'', price = Some 9, price_per_unit_inr = None, ef_tco2_per_unit = None, ef_t_per_unit = None\<rparr>] name"
    by simp
  moreover from mergedBy_override_order [of "[\<lparr>name = Some ''Coal'', price = Some 100, price_per_unit_inr = None, ef_tco2_per_unit = Some 2, ef_t_per_unit = None\<rparr>, \<lparr>name = Some ''Gas'', price = Some 40, price_per_unit_inr = None, ef_tco2_per_unit = Some 1, ef_t_per_unit = None\<rparr>]" "[\<lparr>name = Some ''Coal'', price = Some 150, price_per_unit_inr = None, ef_tco2_per_unit = Some 2, ef_t_per_unit = None\<rparr>]" name, THEN conjunct1]
  have "mergedBy [\<lparr>name = Some ''Coal'', price = Some 100, price_per_unit_inr = None, ef_tco2_per_unit = Some 2, ef_t_per_unit = None\<rparr>, \<lparr>name = Some ''Gas'', price = Some 40, price_per_unit_inr = None, ef_tco2_per_unit = Some 1, ef_t_per_unit = None\<rparr>] [\<lparr>name = Some ''Coal'', price = Some 150, price_per_unit_inr = None, ef_tco2_per_unit = Some 2, ef_t_per_unit = None\<rparr>] name = [\<lparr>name = Some ''Coal'', price = Some 150, price_per_unit_inr = None, ef_tco2_per_unit = Some 2, ef_t_per_unit = None\<rparr>, \<lparr>name = Some ''Gas'', price = Some 40, price_per_unit_inr = None, ef_tco2_per_unit = Some 1, ef_t_per_unit = None\<rparr>]"
    by (simp add: k row_key_def lower_examples)
  ultimately show ?thesis using m by simp
qed

section \<open>Rounding to binary64: properties\<close>

subsection \<open>The sign of a rounded number\<close>

lemma expo_bounds:
  assumes "0 < x"
  shows "2 powi expo x \<le> x \<and> x < 2 powi (expo x + 1)"
proof (cases "1 \<le> x")
  case True
  define n where "n = \<lfloor>x\<rfloor>"
  have n: "0 < n" using True unfolding n_def by linarith
  have e: "expo x = bitlen n - 1" using True by (simp add: expo_def n_def)
  from bitlen_bounds [OF n] have b: "2 ^ nat (bitlen n - 1) \<le> n" "n < 2 ^ nat (bitlen n)" by auto
  have k: "0 \<le> bitlen n - 1"
  proof (rule ccontr)
    assume "\<not> 0 \<le> bitlen n - 1"
    then have "nat (bitlen n) = 0" by simp
    with b(2) n show False by simp
  qed
  have "(2::real) powi (bitlen n - 1) = 2 ^ nat (bitlen n - 1)"
    using k by (simp add: power_int_def)
  also have "\<dots> = of_int (2 ^ nat (bitlen n - 1))" by simp
  also have "\<dots> \<le> of_int n" using b(1) by (simp only: of_int_le_iff)
  also have "\<dots> \<le> x" unfolding n_def by linarith
  finally have lo: "2 powi expo x \<le> x" unfolding e .
  have "x < of_int (n + 1)" unfolding n_def by linarith
  also have "\<dots> \<le> of_int (2 ^ nat (bitlen n))" using b(2) by (simp only: of_int_le_iff; simp)
  also have "\<dots> = (2::real) ^ nat (bitlen n)" by simp
  also have "\<dots> = 2 powi (bitlen n - 1 + 1)" using k by (simp add: power_int_def)
  finally have "x < 2 powi (expo x + 1)" unfolding e .
  with lo show ?thesis by simp
next
  case False
  define c where "c = \<lceil>1 / x\<rceil>"
  define k where "k = bitlen (c - 1)"
  have x1: "1 < 1 / x" using False assms by simp
  have c: "0 < c - 1" using x1 unfolding c_def by linarith
  have e: "expo x = - k" using False by (simp add: expo_def c_def k_def)
  from bitlen_bounds [OF c] have b: "2 ^ nat (k - 1) \<le> c - 1" "c - 1 < 2 ^ nat k"
    unfolding k_def by auto
  have kp: "0 < k"
  proof (rule ccontr)
    assume "\<not> 0 < k"
    then have "nat k = 0" by simp
    with b(2) c show False by simp
  qed
  have "1 / x \<le> of_int c" unfolding c_def by linarith
  also have "\<dots> \<le> of_int (2 ^ nat k)" using b(2) by (simp only: of_int_le_iff; simp)
  also have "\<dots> = (2::real) ^ nat k" by simp
  finally have "1 / x \<le> 2 ^ nat k" .
  then have "1 \<le> 2 ^ nat k * x" using assms by (simp add: field_simps)
  then have "1 / 2 ^ nat k \<le> x" by (simp add: field_simps)
  moreover have "(2::real) powi (- k) = 1 / 2 ^ nat k"
    using kp by (simp add: power_int_def field_simps)
  ultimately have lo: "2 powi expo x \<le> x" unfolding e by simp
  have "(2::real) ^ nat (k - 1) = of_int (2 ^ nat (k - 1))" by simp
  also have "\<dots> \<le> of_int (c - 1)" using b(1) by (simp only: of_int_le_iff)
  also have "\<dots> < 1 / x" unfolding c_def by linarith
  finally have "2 ^ nat (k - 1) < 1 / x" .
  then have "2 ^ nat (k - 1) * x < 1" using assms by (simp add: field_simps)
  then have "x < 1 / 2 ^ nat (k - 1)" by (simp add: field_simps)
  moreover have "(2::real) powi (- k + 1) = 1 / 2 ^ nat (k - 1)"
  proof (cases "k = 1")
    case True then show ?thesis by simp
  next
    case False
    with kp have "- k + 1 < 0" by simp
    then show ?thesis by (simp add: power_int_def field_simps nat_diff_distrib)
  qed
  ultimately have "x < 2 powi (expo x + 1)" unfolding e by simp
  with lo show ?thesis by simp
qed

lemma round_even_pos: "1 / 2 < m \<Longrightarrow> 0 < round_even m"
proof -
  assume m: "1 / 2 < m"
  then have f: "0 \<le> \<lfloor>m\<rfloor>" by linarith
  show ?thesis
  proof (cases "\<lfloor>m\<rfloor> = 0")
    case True
    with m show ?thesis by (simp add: round_even_def Let_def)
  next
    case False
    with f have "0 < \<lfloor>m\<rfloor>" by linarith
    then show ?thesis by (simp add: round_even_def Let_def)
  qed
qed

lemma fl64_scaled_pos:
  assumes "1 / 2 ^ 1075 < x"
  shows "0 < of_int (round_even (x / 2 powi max (expo x - 52) (- 1074))) * (2::real) powi max (expo x - 52) (- 1074)"
proof -
  let ?q = "max (expo x - 52) (- 1074)"
  have x: "0 < x" using assms by (rule less_trans [rotated]) simp
  have p: "(0::real) < 2 powi ?q" by simp
  have "2 powi ?q / 2 < x"
  proof (cases "expo x - 52 \<le> - 1074")
    case True
    then have "?q = - 1074" by simp
    then have "(2::real) powi ?q / 2 = 1 / 2 ^ 1075" by (simp add: power_int_def field_simps)
    with assms show ?thesis by simp
  next
    case False
    then have "?q = expo x - 52" by simp
    then have "(2::real) powi ?q / 2 = 2 powi expo x / 2 ^ 53"
      by (simp add: power_int_diff)
    also have "\<dots> \<le> x / 2 ^ 53" using expo_bounds [OF x] by (simp add: divide_right_mono)
    also have "\<dots> < x" using x by simp
    finally show ?thesis .
  qed
  then have "1 / 2 < x / 2 powi ?q" using p by (simp add: field_simps)
  then have "0 < round_even (x / 2 powi ?q)" by (rule round_even_pos)
  then show ?thesis using p by simp
qed

lemma fl64_sign:
  "js_less (Fin 0) (fl64 x) \<longleftrightarrow> 1 / 2 ^ 1075 < x"
  "js_less (fl64 x) (Fin 0) \<longleftrightarrow> x < - (1 / 2 ^ 1075)"
  "\<not> isNaN (fl64 x)"
proof -
  consider "\<bar>x\<bar> \<le> 1 / 2 ^ 1075" | "1 / 2 ^ 1075 < x" | "x < - (1 / 2 ^ 1075)" by linarith
  then have "(js_less (Fin 0) (fl64 x) \<longleftrightarrow> 1 / 2 ^ 1075 < x)
      \<and> (js_less (fl64 x) (Fin 0) \<longleftrightarrow> x < - (1 / 2 ^ 1075)) \<and> \<not> isNaN (fl64 x)"
  proof cases
    case 1
    then have "fl64 x = Fin 0" by (simp add: fl64_def)
    with 1 show ?thesis by auto
  next
    case 2
    then have x: "0 < x" by (rule less_trans [rotated]) simp
    from fl64_scaled_pos [OF 2] 2 x show ?thesis
      by (simp add: fl64_def Let_def)
  next
    case 3
    then have x: "x < 0" by (rule less_trans) simp
    have "1 / 2 ^ 1075 < - x" using 3 by simp
    from fl64_scaled_pos [OF this] 3 x show ?thesis
      by (simp add: fl64_def Let_def)
  qed
  then show "js_less (Fin 0) (fl64 x) \<longleftrightarrow> 1 / 2 ^ 1075 < x"
    "js_less (fl64 x) (Fin 0) \<longleftrightarrow> x < - (1 / 2 ^ 1075)"
    "\<not> isNaN (fl64 x)" by simp_all
qed

lemma fl64_underflow: "\<bar>x\<bar> \<le> 1 / 2 ^ 1075 \<Longrightarrow> fl64 x = Fin 0"
  by (simp add: fl64_def)

subsection \<open>Evaluation on numerals\<close>

lemma bitlen_numeral:
  "bitlen 1 = 1"
  "bitlen (numeral Num.One) = 1"
  "bitlen (numeral (Num.Bit0 n)) = bitlen (numeral n) + 1"
  "bitlen (numeral (Num.Bit1 n)) = bitlen (numeral n) + 1"
proof -
  show "bitlen 1 = 1" by (subst compute_bitlen) simp
  then show "bitlen (numeral Num.One) = 1" by simp
  have "bitlen (numeral (Num.Bit0 n)) = bitlen (numeral (Num.Bit0 n) div 2) + 1"
    by (subst compute_bitlen) simp
  then show "bitlen (numeral (Num.Bit0 n)) = bitlen (numeral n) + 1" by simp
  have "bitlen (numeral (Num.Bit1 n)) = bitlen (numeral (Num.Bit1 n) div 2) + 1"
    by (subst compute_bitlen) simp
  then show "bitlen (numeral (Num.Bit1 n)) = bitlen (numeral n) + 1" by simp
qed

lemma powi_numeral:
  "(2::real) powi 0 = 1"
  "(2::real) powi 1 = 2"
  "(2::real) powi (- 1) = 1 / 2"
  "(2::real) powi numeral k = 2 ^ numeral k"
  "(2::real) powi (- numeral k) = 1 / 2 ^ numeral k"
  by (simp_all add: power_int_def field_simps)

lemma fl64_zero: "fl64 0 = Fin 0"
  by (simp add: fl64_def)

lemma fl64_mid:
  assumes "1 / 2 ^ 200 \<le> \<bar>x\<bar>" and "\<bar>x\<bar> < 2 ^ 200"
  shows "fl64 x = Fin (sgn x * (of_int (round_even (\<bar>x\<bar> / 2 powi (expo \<bar>x\<bar> - 52)))
                                * 2 powi (expo \<bar>x\<bar> - 52)))"
proof -
  have p: "0 < \<bar>x\<bar>" using assms(1) by (rule less_le_trans [rotated]) simp
  have a: "\<not> \<bar>x\<bar> \<le> 1 / 2 ^ 1075"
  proof -
    have "(1::real) / 2 ^ 1075 < 1 / 2 ^ 200" by simp
    with assms(1) show ?thesis by linarith
  qed
  have b: "\<not> 2 ^ 1024 - 2 ^ 970 \<le> \<bar>x\<bar>"
  proof -
    have "(2::real) ^ 200 \<le> 2 ^ 1024 - 2 ^ 970" by simp
    with assms(2) show ?thesis by linarith
  qed
  have "(2::real) powi (- 200) = 1 / 2 ^ 200" by (simp add: power_int_def field_simps)
  with assms(1) expo_bounds [OF p] have "(2::real) powi (- 200) < 2 powi (expo \<bar>x\<bar> + 1)"
    by linarith
  then have "- 200 < expo \<bar>x\<bar> + 1"
    using power_int_increasing [of "expo \<bar>x\<bar> + 1" "- 200" "2::real"] by linarith
  then have c: "max (expo \<bar>x\<bar> - 52) (- 1074) = expo \<bar>x\<bar> - 52" by simp
  show ?thesis unfolding fl64_def Let_def c using a b by simp
qed

lemmas fl64_eval = fl64_zero fl64_mid expo_def bitlen_numeral round_even_def Let_def powi_numeral

text \<open>
  The number nearest to one tenth, and two ties: \<open>2\<^sup>5\<^sup>3 + 1\<close> lies half way between
  \<open>2\<^sup>5\<^sup>3\<close> and \<open>2\<^sup>5\<^sup>3 + 2\<close>, and \<open>2\<^sup>5\<^sup>3 + 3\<close> half way between \<open>2\<^sup>5\<^sup>3 + 2\<close> and
  \<open>2\<^sup>5\<^sup>3 + 4\<close>.
\<close>

lemma fl64_examples:
  "fl64 (1 / 10) = Fin (3602879701896397 / 36028797018963968)"
  "fl64 (2 ^ 53 + 1) = Fin (2 ^ 53)"
  "fl64 (2 ^ 53 + 3) = Fin (2 ^ 53 + 4)"
  "fl64 (- 4766) = Fin (- 4766)"
  by (simp_all add: fl64_eval)

section \<open>Internal rate of return: properties\<close>

lemma npv_single_base_year: "npv r [Fin a] [y] y = Fin a"
  by (simp add: npv_def npv_term_def)

lemma irr_loop_stops_first:
  "0 < k \<Longrightarrow> js_less (js_abs (f ((lo + hi) / 2))) (Fin tol)
   \<Longrightarrow> irr_loop f tol k lo hi fLo = (lo + hi) / 2"
  by (cases k) simp_all

text \<open>
  With finite present values \<open>u\<close> and \<open>v\<close> at the two bounds, \<^verbatim>\<open>irr\<close> returns \<^verbatim>\<open>null\<close>
  exactly when the product \<open>u * v\<close> is above \<open>2\<^sup>-\<^sup>1\<^sup>0\<^sup>7\<^sup>5\<close>: two values of the same sign
  whose product is smaller than that pass the bracket test.
\<close>

lemma irr_null_finite:
  assumes "npv (- 9 / 10) amounts yrs b = Fin u" and "npv 3 amounts yrs b = Fin v"
  shows "irr amounts yrs b = None \<longleftrightarrow> 1 / 2 ^ 1075 < u * v"
  unfolding irr_def irr_with_def Let_def assms js_mul_def mul_with.simps
  by (simp only: fl64_sign isNaN.simps simp_thms if_False split: if_splits) simp

lemma irr_tiny_positive_flow:
  assumes "0 < a" and "a * a \<le> 1 / 2 ^ 1075" and "a < 1 / 10 ^ 6"
  shows "irr [Fin a] [y] y = Some (21 / 20)"
proof -
  have m: "js_mul (Fin a) (Fin a) = Fin 0"
    using assms(1,2) by (simp add: js_mul_def fl64_underflow)
  have l: "irr_loop (\<lambda>r. Fin a) (1 / 10 ^ 6) 100 (- 9 / 10) 3 (Fin a) = 21 / 20"
    by (rule irr_loop_stops_first [THEN trans]) (use assms(1,3) in simp_all)
  show ?thesis
    unfolding irr_def irr_with_def Let_def
    by (simp only: l npv_single_base_year m isNaN.simps js_less.simps simp_thms if_False less_irrefl)
qed

text \<open>
  Claim C5 says that \<^verbatim>\<open>irr\<close> returns \<^verbatim>\<open>null\<close> whenever the present values at the bounds
  \<open>-0.9\<close> and \<open>3.0\<close> have the same sign, in particular for every series of positive cash
  flows. The program does so for the single cash flow 100 in the base year. For the
  single cash flow \<^verbatim>\<open>1e-200\<close> it does not: both present values are \<^verbatim>\<open>1e-200\<close>, which is
  positive, their product rounds to zero, the test \<^verbatim>\<open>fLo * fHi > 0\<close> does not fire, and
  \<^verbatim>\<open>irr\<close> returns the first midpoint of the bisection, \<open>1.05\<close>.
\<close>

theorem irr_same_sign_underflow:
  "npv (- 9 / 10) [Fin (1 / 10 ^ 200)] [2025] 2025 = Fin (1 / 10 ^ 200)
   \<and> npv 3 [Fin (1 / 10 ^ 200)] [2025] 2025 = Fin (1 / 10 ^ 200)
   \<and> js_less (Fin 0) (Fin (1 / 10 ^ 200))
   \<and> js_mul (Fin (1 / 10 ^ 200)) (Fin (1 / 10 ^ 200)) = Fin 0
   \<and> irr [Fin (1 / 10 ^ 200)] [2025] 2025 = Some (21 / 20)
   \<and> irr [Fin 100] [2025] 2025 = None"
proof -
  have a: "(1 / 10 ^ 200 :: real) * (1 / 10 ^ 200) \<le> 1 / 2 ^ 1075" by simp
  have b: "(1 / 10 ^ 200 :: real) < 1 / 10 ^ 6" by simp
  have c: "(0::real) < 1 / 10 ^ 200" by simp
  have m: "js_mul (Fin (1 / 10 ^ 200)) (Fin (1 / 10 ^ 200)) = Fin 0"
    using a c unfolding js_mul_def mul_with.simps by (intro fl64_underflow) simp
  have n: "irr [Fin 100] [2025] 2025 = None"
    by (subst irr_null_finite [where u = 100 and v = 100])
      (simp_all add: npv_single_base_year)
  from irr_tiny_positive_flow [OF c a b] m c n show ?thesis
    by (simp only: npv_single_base_year js_less.simps simp_thms)
qed

section \<open>Quadratic fit: properties\<close>

subsection \<open>Exact arithmetic\<close>

lemma with_Fin:
  "add_with Fin (Fin a) (Fin b) = Fin (a + b)"
  "sub_with Fin (Fin a) (Fin b) = Fin (a - b)"
  "mul_with Fin (Fin a) (Fin b) = Fin (a * b)"
  "b \<noteq> 0 \<Longrightarrow> div_with Fin (Fin a) (Fin b) = Fin (a / b)"
  by (simp_all add: sub_with_def)










subsection \<open>The fit on binary64 numbers\<close>

lemmas fit_eval = quadraticFit_def quadraticFit_with_def points_def acc_sum_def det_def
  sub_with_def degenerate_fit_def




text \<open>
  With a determinant far above the threshold the program still does not recover the
  quadratic where the determinants cancel. For the points 1000, 1001, 1002 the
  determinant is 4 in exact arithmetic, and exact arithmetic returns 2, 3, -1 and 1; the
  program computes the determinant -4766 and returns coefficients near 111938, -1247 and
  0.137 with \<open>r2\<close> near 0.74.
\<close>

lemma quadraticFit_cancellation:
  "quadraticFit_with Fin [1000, 1001, 1002] [- 996998, - 998996, - 1000996]
     = \<lparr>fit_a = Fin 2, fit_b = Fin 3, fit_c = Fin (- 1), fit_r2 = Some (Fin 1)\<rparr>"
  "quadraticFit [1000, 1001, 1002] [- 996998, - 998996, - 1000996]
     = \<lparr>fit_a = Fin (7692340223268543 / 68719476736),
        fit_b = Fin (- 5483328622052215 / 4398046511104),
        fit_c = Fin (4928824099111311 / 36028797018963968),
        fit_r2 = Some (Fin (3316942239973121 / 4503599627370496))\<rparr>"
proof -
  show "quadraticFit_with Fin [1000, 1001, 1002] [- 996998, - 998996, - 1000996]
     = \<lparr>fit_a = Fin 2, fit_b = Fin 3, fit_c = Fin (- 1), fit_r2 = Some (Fin 1)\<rparr>"
    by (simp add: fit_eval with_Fin)
  show "quadraticFit [1000, 1001, 1002] [- 996998, - 998996, - 1000996]
     = \<lparr>fit_a = Fin (7692340223268543 / 68719476736),
        fit_b = Fin (- 5483328622052215 / 4398046511104),
        fit_c = Fin (4928824099111311 / 36028797018963968),
        fit_r2 = Some (Fin (3316942239973121 / 4503599627370496))\<rparr>"
    by (simp add: fit_eval fl64_eval)
qed

section \<open>Interpolation: properties\<close>

lemma fill_gap_nth:
  "i \<le> length s \<Longrightarrow>
   length (fill_gap l i dv s) = length s
   \<and> (\<forall>k<length s. fill_gap l i dv s ! k
        = (if l < k \<and> k < i then Some (num0 (s ! l) + dv * real (k - l)) else s ! k))"
proof (induction i)
  case 0
  then show ?case by (simp add: fill_gap_def)
next
  case (Suc i)
  show ?case
  proof (cases "Suc l \<le> i")
    case False
    then have "[Suc l..<Suc i] = []" by simp
    with False show ?thesis by (auto simp: fill_gap_def)
  next
    case True
    let ?s1 = "fill_gap l i dv s"
    from Suc have ih: "length ?s1 = length s"
      "\<forall>k<length s. ?s1 ! k = (if l < k \<and> k < i then Some (num0 (s ! l) + dv * real (k - l)) else s ! k)"
      by simp_all
    from True have "[Suc l..<Suc i] = [Suc l..<i] @ [i]" by simp
    then have step: "fill_gap l (Suc i) dv s = ?s1[i := Some (num0 (?s1 ! l) + dv * real (i - l))]"
      by (simp add: fill_gap_def)
    have l: "l < length s" using True Suc.prems by simp
    with ih(2) have sl: "?s1 ! l = s ! l" by simp
    have len: "length (fill_gap l (Suc i) dv s) = length s" using step ih(1) by simp
    have "fill_gap l (Suc i) dv s ! k
        = (if l < k \<and> k < Suc i then Some (num0 (s ! l) + dv * real (k - l)) else s ! k)"
      if k: "k < length s" for k
    proof (cases "k = i")
      case True
      with k \<open>Suc l \<le> i\<close> show ?thesis by (simp add: step sl ih(1))
    next
      case False
      then have "fill_gap l (Suc i) dv s ! k = ?s1 ! k" by (simp add: step)
      with ih(2) k False show ?thesis by auto
    qed
    with len show ?thesis by blast
  qed
qed

lemma interpolate_prefix:
  fixes series :: "cell list"
  shows "m \<le> length series \<Longrightarrow>
    \<exists>s last. fold interpolate_step [0..<m] (series, None) = (s, last)
     \<and> length s = length series
     \<and> (\<forall>i. m \<le> i \<and> i < length series \<longrightarrow> s ! i = series ! i)
     \<and> (\<forall>i<length series. series ! i \<noteq> None \<longrightarrow> s ! i = series ! i)
     \<and> (last = None \<longrightarrow> (\<forall>j<m. series ! j = None))
     \<and> (\<forall>l. last = Some l \<longrightarrow>
           l < m \<and> series ! l \<noteq> None \<and> (\<forall>j. l < j \<and> j < m \<longrightarrow> series ! j = None))
     \<and> (\<forall>l r k u v. l < k \<and> k < r \<and> r < m \<and> series ! l = Some u \<and> series ! r = Some v
           \<and> (\<forall>j. l < j \<and> j < r \<longrightarrow> series ! j = None)
           \<longrightarrow> s ! k = Some (u + (v - u) / real (r - l) * real (k - l)))
     \<and> (\<forall>k<length series. series ! k = None
           \<and> \<not> (\<exists>l r. l < k \<and> k < r \<and> r < m \<and> series ! l \<noteq> None \<and> series ! r \<noteq> None)
           \<longrightarrow> s ! k = None)"
proof (induction m)
  case 0
  then show ?case by simp
next
  case (Suc m)
  then have m: "m < length series" by simp
  from Suc obtain s last where st: "fold interpolate_step [0..<m] (series, None) = (s, last)"
    and len: "length s = length series"
    and rest: "\<forall>i. m \<le> i \<and> i < length series \<longrightarrow> s ! i = series ! i"
    and keep: "\<forall>i<length series. series ! i \<noteq> None \<longrightarrow> s ! i = series ! i"
    and none: "last = None \<longrightarrow> (\<forall>j<m. series ! j = None)"
    and some: "\<forall>l. last = Some l \<longrightarrow>
           l < m \<and> series ! l \<noteq> None \<and> (\<forall>j. l < j \<and> j < m \<longrightarrow> series ! j = None)"
    and mid: "\<forall>l r k u v. l < k \<and> k < r \<and> r < m \<and> series ! l = Some u \<and> series ! r = Some v
           \<and> (\<forall>j. l < j \<and> j < r \<longrightarrow> series ! j = None)
           \<longrightarrow> s ! k = Some (u + (v - u) / real (r - l) * real (k - l))"
    and out: "\<forall>k<length series. series ! k = None
           \<and> \<not> (\<exists>l r. l < k \<and> k < r \<and> r < m \<and> series ! l \<noteq> None \<and> series ! r \<noteq> None)
           \<longrightarrow> s ! k = None"
    by auto
  have sm: "s ! m = series ! m" using rest m by simp
  have next_state: "fold interpolate_step [0..<Suc m] (series, None) = interpolate_step m (s, last)"
    by (simp add: st)
  show ?case
  proof (cases "series ! m")
    case None
    then have e: "fold interpolate_step [0..<Suc m] (series, None) = (s, last)"
      unfolding next_state using sm by (simp add: interpolate_step_def filled_def)
    have a: "\<forall>i. Suc m \<le> i \<and> i < length series \<longrightarrow> s ! i = series ! i" using rest by simp
    have b: "last = None \<longrightarrow> (\<forall>j<Suc m. series ! j = None)"
      using none None by (auto simp: less_Suc_eq)
    have c: "\<forall>l. last = Some l \<longrightarrow>
           l < Suc m \<and> series ! l \<noteq> None \<and> (\<forall>j. l < j \<and> j < Suc m \<longrightarrow> series ! j = None)"
      using some None by (auto simp: less_Suc_eq)
    have d: "\<forall>l r k u v. l < k \<and> k < r \<and> r < Suc m \<and> series ! l = Some u \<and> series ! r = Some v
           \<and> (\<forall>j. l < j \<and> j < r \<longrightarrow> series ! j = None)
           \<longrightarrow> s ! k = Some (u + (v - u) / real (r - l) * real (k - l))"
    proof (intro allI impI)
      fix l r k u v
      assume h: "l < k \<and> k < r \<and> r < Suc m \<and> series ! l = Some u \<and> series ! r = Some v
           \<and> (\<forall>j. l < j \<and> j < r \<longrightarrow> series ! j = None)"
      with None have "r \<noteq> m" by auto
      with h have "r < m" by simp
      with h mid show "s ! k = Some (u + (v - u) / real (r - l) * real (k - l))" by blast
    qed
    have f: "\<forall>k<length series. series ! k = None
           \<and> \<not> (\<exists>l r. l < k \<and> k < r \<and> r < Suc m \<and> series ! l \<noteq> None \<and> series ! r \<noteq> None)
           \<longrightarrow> s ! k = None"
    proof (intro allI impI)
      fix k assume k: "k < length series"
      assume h: "series ! k = None
           \<and> \<not> (\<exists>l r. l < k \<and> k < r \<and> r < Suc m \<and> series ! l \<noteq> None \<and> series ! r \<noteq> None)"
      then have "\<not> (\<exists>l r. l < k \<and> k < r \<and> r < m \<and> series ! l \<noteq> None \<and> series ! r \<noteq> None)"
        by (meson less_Suc_eq)
      with h k out show "s ! k = None" by blast
    qed
    from e len a keep b c d f show ?thesis by blast
  next
    case (Some v)
    then have fm: "filled (s ! m)" using sm by (simp add: filled_def)
    show ?thesis
    proof (cases last)
      case None
      then have e: "fold interpolate_step [0..<Suc m] (series, None) = (s, Some m)"
        unfolding next_state using fm by (simp add: interpolate_step_def)
      have blank: "\<forall>j<m. series ! j = None" using none None by simp
      have a: "\<forall>i. Suc m \<le> i \<and> i < length series \<longrightarrow> s ! i = series ! i" using rest by simp
      have c: "\<forall>l. Some m = Some l \<longrightarrow>
           l < Suc m \<and> series ! l \<noteq> None \<and> (\<forall>j. l < j \<and> j < Suc m \<longrightarrow> series ! j = None)"
        using Some by auto
      have d: "\<forall>l r k u v. l < k \<and> k < r \<and> r < Suc m \<and> series ! l = Some u \<and> series ! r = Some v
           \<and> (\<forall>j. l < j \<and> j < r \<longrightarrow> series ! j = None)
           \<longrightarrow> s ! k = Some (u + (v - u) / real (r - l) * real (k - l))"
      proof (intro allI impI)
        fix l r k u v
        assume h: "l < k \<and> k < r \<and> r < Suc m \<and> series ! l = Some u \<and> series ! r = Some v
           \<and> (\<forall>j. l < j \<and> j < r \<longrightarrow> series ! j = None)"
        then have "l < m" by simp
        with blank h have False by simp
        then show "s ! k = Some (u + (v - u) / real (r - l) * real (k - l))" ..
      qed
      have f: "\<forall>k<length series. series ! k = None
           \<and> \<not> (\<exists>l r. l < k \<and> k < r \<and> r < Suc m \<and> series ! l \<noteq> None \<and> series ! r \<noteq> None)
           \<longrightarrow> s ! k = None"
      proof (intro allI impI)
        fix k assume k: "k < length series"
        assume h: "series ! k = None
           \<and> \<not> (\<exists>l r. l < k \<and> k < r \<and> r < Suc m \<and> series ! l \<noteq> None \<and> series ! r \<noteq> None)"
        then have "\<not> (\<exists>l r. l < k \<and> k < r \<and> r < m \<and> series ! l \<noteq> None \<and> series ! r \<noteq> None)"
          by (meson less_Suc_eq)
        with h k out show "s ! k = None" by blast
      qed
      have b: "Some m = None \<longrightarrow> (\<forall>j<Suc m. series ! j = None)" by simp
      from e len a keep b c d f show ?thesis by blast
    next
      case (Some l)
      with some have l: "l < m" "series ! l \<noteq> None" "\<forall>j. l < j \<and> j < m \<longrightarrow> series ! j = None"
        by simp_all
      from l(2) obtain u where u: "series ! l = Some u" by auto
      have sl: "s ! l = Some u" using keep l(1) m u by simp
      let ?dv = "(v - u) / real (m - l)"
      let ?s' = "fill_gap l m ?dv s"
      have e: "fold interpolate_step [0..<Suc m] (series, None) = (?s', Some m)"
        unfolding next_state using fm Some sm \<open>series ! m = Some v\<close> sl
        by (simp add: interpolate_step_def Let_def num0_def)
      from fill_gap_nth [of m s l ?dv] m len
      have len': "length ?s' = length series"
        and nth': "\<forall>k<length series. ?s' ! k
            = (if l < k \<and> k < m then Some (u + ?dv * real (k - l)) else s ! k)"
        by (simp_all add: sl num0_def)
      have nthk: "?s' ! k = (if l < k \<and> k < m then Some (u + ?dv * real (k - l)) else s ! k)"
        if "k < length series" for k
        using nth' that by blast
      have a: "\<forall>i. Suc m \<le> i \<and> i < length series \<longrightarrow> ?s' ! i = series ! i"
        using rest by (simp add: nthk)
      have keep': "\<forall>i<length series. series ! i \<noteq> None \<longrightarrow> ?s' ! i = series ! i"
        using keep l(3) by (auto simp: nthk)
      have b: "Some m = None \<longrightarrow> (\<forall>j<Suc m. series ! j = None)" by simp
      have c: "\<forall>l. Some m = Some l \<longrightarrow>
           l < Suc m \<and> series ! l \<noteq> None \<and> (\<forall>j. l < j \<and> j < Suc m \<longrightarrow> series ! j = None)"
        using \<open>series ! m = Some v\<close> by auto
      have d: "\<forall>l r k u v. l < k \<and> k < r \<and> r < Suc m \<and> series ! l = Some u \<and> series ! r = Some v
           \<and> (\<forall>j. l < j \<and> j < r \<longrightarrow> series ! j = None)
           \<longrightarrow> ?s' ! k = Some (u + (v - u) / real (r - l) * real (k - l))"
      proof (intro allI impI)
        fix l' r k u' v'
        assume h: "l' < k \<and> k < r \<and> r < Suc m \<and> series ! l' = Some u' \<and> series ! r = Some v'
           \<and> (\<forall>j. l' < j \<and> j < r \<longrightarrow> series ! j = None)"
        then have k: "k < length series" using m by simp
        show "?s' ! k = Some (u' + (v' - u') / real (r - l') * real (k - l'))"
        proof (cases "r = m")
          case True
          have "l' = l"
          proof (rule ccontr)
            assume ne: "l' \<noteq> l"
            show False
            proof (cases "l' < l")
              case True
              with h \<open>r = m\<close> l(1) have "series ! l = None" by simp
              with l(2) show False by simp
            next
              case False
              with ne have "l < l'" by simp
              moreover from h \<open>r = m\<close> have "l' < m" by simp
              ultimately have "series ! l' = None" using l(3) by simp
              with h show False by simp
            qed
          qed
          with h u True \<open>series ! m = Some v\<close> have "u' = u" "v' = v" "l < k" "k < m" by simp_all
          with nthk [OF k] True \<open>l' = l\<close> show ?thesis by simp
        next
          case False
          with h have r: "r < m" by simp
          have "\<not> (l < k \<and> k < m)"
          proof
            assume "l < k \<and> k < m"
            with h r have "l < r \<and> r < m" by simp
            with l(3) have "series ! r = None" by simp
            with h show False by simp
          qed
          with nthk [OF k] have "?s' ! k = s ! k" by simp
          with mid h r show ?thesis by simp
        qed
      qed
      have f: "\<forall>k<length series. series ! k = None
           \<and> \<not> (\<exists>l r. l < k \<and> k < r \<and> r < Suc m \<and> series ! l \<noteq> None \<and> series ! r \<noteq> None)
           \<longrightarrow> ?s' ! k = None"
      proof (intro allI impI)
        fix k assume k: "k < length series"
        assume h: "series ! k = None
           \<and> \<not> (\<exists>l r. l < k \<and> k < r \<and> r < Suc m \<and> series ! l \<noteq> None \<and> series ! r \<noteq> None)"
        have "\<not> (l < k \<and> k < m)"
        proof
          assume "l < k \<and> k < m"
          with l(2) \<open>series ! m = Some v\<close>
          have "l < k \<and> k < m \<and> m < Suc m \<and> series ! l \<noteq> None \<and> series ! m \<noteq> None" by simp
          with h show False by blast
        qed
        with nthk [OF k] have "?s' ! k = s ! k" by simp
        moreover from h
        have "\<not> (\<exists>l r. l < k \<and> k < r \<and> r < m \<and> series ! l \<noteq> None \<and> series ! r \<noteq> None)"
          by (meson less_Suc_eq)
        ultimately show "?s' ! k = None" using h k out by simp
      qed
      from e len' a keep' b c d f show ?thesis by blast
    qed
  qed
qed


lemma interpolate_example:
  "interpolateSeries [Some 5, None, None, Some 20, None]
     = [Some 5, Some 10, Some 15, Some 20, None]"
  by (simp add: interpolateSeries_def interpolate_step_def fill_gap_def filled_def num0_def
      Let_def upt_rec)

text \<open>
  Claim C6. \<open>interpolateSeries\<close> keeps the length of the series and every filled entry.
  A blank entry that lies between two filled entries with only blanks between them gets
  the value on the straight line through these two neighbours. A blank entry with no
  filled entry before it, or with none after it, stays blank. The series 5, blank,
  blank, 20, blank becomes 5, 10, 15, 20, blank.
\<close>

theorem interpolateSeries_gaps:
  "length (interpolateSeries series) = length series
   \<and> (\<forall>i<length series. series ! i \<noteq> None \<longrightarrow> interpolateSeries series ! i = series ! i)
   \<and> (\<forall>l r k u v. l < k \<and> k < r \<and> r < length series
         \<and> series ! l = Some u \<and> series ! r = Some v
         \<and> (\<forall>j. l < j \<and> j < r \<longrightarrow> series ! j = None)
         \<longrightarrow> interpolateSeries series ! k = Some (u + (v - u) / real (r - l) * real (k - l)))
   \<and> (\<forall>k<length series. (\<forall>j\<le>k. series ! j = None) \<longrightarrow> interpolateSeries series ! k = None)
   \<and> (\<forall>k<length series. (\<forall>j. k \<le> j \<and> j < length series \<longrightarrow> series ! j = None)
         \<longrightarrow> interpolateSeries series ! k = None)
   \<and> interpolateSeries [Some 5, None, None, Some 20, None]
       = [Some 5, Some 10, Some 15, Some 20, None]"
proof -
  from interpolate_prefix [of "length series" series]
  obtain s last where st: "fold interpolate_step [0..<length series] (series, None) = (s, last)"
    and len: "length s = length series"
    and keep: "\<forall>i<length series. series ! i \<noteq> None \<longrightarrow> s ! i = series ! i"
    and mid: "\<forall>l r k u v. l < k \<and> k < r \<and> r < length series
           \<and> series ! l = Some u \<and> series ! r = Some v
           \<and> (\<forall>j. l < j \<and> j < r \<longrightarrow> series ! j = None)
           \<longrightarrow> s ! k = Some (u + (v - u) / real (r - l) * real (k - l))"
    and out: "\<forall>k<length series. series ! k = None
           \<and> \<not> (\<exists>l r. l < k \<and> k < r \<and> r < length series
                  \<and> series ! l \<noteq> None \<and> series ! r \<noteq> None)
           \<longrightarrow> s ! k = None"
    by auto
  have r: "interpolateSeries series = s" by (simp add: interpolateSeries_def st)
  have lead: "\<forall>k<length series. (\<forall>j\<le>k. series ! j = None) \<longrightarrow> s ! k = None"
  proof (intro allI impI)
    fix k assume k: "k < length series" and b: "\<forall>j\<le>k. series ! j = None"
    then have "series ! k = None" by simp
    moreover have "\<not> (\<exists>l r. l < k \<and> k < r \<and> r < length series
                  \<and> series ! l \<noteq> None \<and> series ! r \<noteq> None)"
      using b by auto
    ultimately show "s ! k = None" using out k by blast
  qed
  have trail: "\<forall>k<length series. (\<forall>j. k \<le> j \<and> j < length series \<longrightarrow> series ! j = None)
      \<longrightarrow> s ! k = None"
  proof (intro allI impI)
    fix k assume k: "k < length series"
      and b: "\<forall>j. k \<le> j \<and> j < length series \<longrightarrow> series ! j = None"
    then have "series ! k = None" by simp
    moreover have "\<not> (\<exists>l r. l < k \<and> k < r \<and> r < length series
                  \<and> series ! l \<noteq> None \<and> series ! r \<noteq> None)"
      using b by auto
    ultimately show "s ! k = None" using out k by blast
  qed
  from len keep mid lead trail
  have "length s = length series
   \<and> (\<forall>i<length series. series ! i \<noteq> None \<longrightarrow> s ! i = series ! i)
   \<and> (\<forall>l r k u v. l < k \<and> k < r \<and> r < length series
         \<and> series ! l = Some u \<and> series ! r = Some v
         \<and> (\<forall>j. l < j \<and> j < r \<longrightarrow> series ! j = None)
         \<longrightarrow> s ! k = Some (u + (v - u) / real (r - l) * real (k - l)))
   \<and> (\<forall>k<length series. (\<forall>j\<le>k. series ! j = None) \<longrightarrow> s ! k = None)
   \<and> (\<forall>k<length series. (\<forall>j. k \<le> j \<and> j < length series \<longrightarrow> series ! j = None)
         \<longrightarrow> s ! k = None)"
    by blast
  with interpolate_example show ?thesis unfolding r by blast
qed

theorem interpolateSeries_gaps_witness:
  "interpolateSeries [Some 5, None, None, Some 20, None]
     = [Some 5, Some 10, Some 15, Some 20, None]
   \<and> interpolateSeries [None, Some 1, None, Some 2] = [None, Some 1, Some (3 / 2), Some 2]"
proof -
  let ?xs = "[Some 5, None, None, Some 20, None] :: cell list"
  let ?ys = "[None, Some 1, None, Some 2] :: cell list"
  note t = interpolateSeries_gaps [of ?xs]
  note u = interpolateSeries_gaps [of ?ys]
  have l: "length (interpolateSeries ?xs) = 5" using t by simp
  have "interpolateSeries ?xs ! 0 = Some 5" "interpolateSeries ?xs ! 3 = Some 20"
    using t [THEN conjunct2, THEN conjunct1, rule_format, of 0]
      t [THEN conjunct2, THEN conjunct1, rule_format, of 3] by simp_all
  moreover have "interpolateSeries ?xs ! 1 = Some 10" "interpolateSeries ?xs ! 2 = Some 15"
    using t [THEN conjunct2, THEN conjunct2, THEN conjunct1, rule_format, of 0 1 3 5 20]
      t [THEN conjunct2, THEN conjunct2, THEN conjunct1, rule_format, of 0 2 3 5 20]
    by (simp_all add: less_Suc_eq nth_Cons')
  moreover have "interpolateSeries ?xs ! 4 = None"
    using t [THEN conjunct2, THEN conjunct2, THEN conjunct2, THEN conjunct2, THEN conjunct1,
        rule_format, of 4]
    by (simp add: nth_Cons')
  ultimately have x: "interpolateSeries ?xs = [Some 5, Some 10, Some 15, Some 20, None]"
    using l by (intro nth_equalityI) (auto simp: less_Suc_eq eval_nat_numeral)
  have l2: "length (interpolateSeries ?ys) = 4" using u by simp
  have "interpolateSeries ?ys ! 0 = None"
    using u [THEN conjunct2, THEN conjunct2, THEN conjunct2, THEN conjunct1, rule_format, of 0]
    by simp
  moreover have "interpolateSeries ?ys ! 1 = Some 1" "interpolateSeries ?ys ! 3 = Some 2"
    using u [THEN conjunct2, THEN conjunct1, rule_format, of 1]
      u [THEN conjunct2, THEN conjunct1, rule_format, of 3] by simp_all
  moreover have "interpolateSeries ?ys ! 2 = Some (3 / 2)"
    using u [THEN conjunct2, THEN conjunct2, THEN conjunct1, rule_format, of 1 2 3 1 2]
    by (simp add: less_Suc_eq nth_Cons')
  ultimately have y: "interpolateSeries ?ys = [None, Some 1, Some (3 / 2), Some 2]"
    using l2 by (intro nth_equalityI) (auto simp: less_Suc_eq eval_nat_numeral)
  from x y show ?thesis by simp
qed

end
